theory Spec2Isabelle
  imports Main "HOL-Library.Word"
begin

section \<open>The V8.NET native proxy layer: data model\<close>

text \<open>
  The proxy layer sits between a managed host and the V8 engine.  The engine itself is not
  part of the repository; it is modelled by the values it hands out, the objects of its
  heap and a log of the API calls the proxy makes (the call-count probe of a test double).
  Native pointers are addresses into explicit stores.
\<close>

type_synonym addr = nat     \<comment> \<open>identity of an object on the engine heap\<close>
type_synonym href = int     \<comment> \<open>\<^verbatim>\<open>HandleProxy*\<close>\<close>
type_synonym tref = int     \<comment> \<open>pointer to a \<^verbatim>\<open>ProxyBase\<close> object (template proxies)\<close>
type_synonym eref = int     \<comment> \<open>\<^verbatim>\<open>V8EngineProxy*\<close>\<close>
type_synonym float64 = "64 word"  \<comment> \<open>a double, as its IEEE-754 bit pattern (0 is +0.0)\<close>

subsection \<open>Values of the engine and their type tests\<close>

datatype obj_class =
    PlainObject | BooleanObject | NumberObject | StringObject | DateObject
  | ArrayObject | RegExpObject | FunctionObject | NativeErrorObject

text \<open>
  \<open>VInt32\<close> is a number representable as a 32-bit integer, \<open>VNumber\<close> any other number.
  \<open>VExternal\<close> wraps a \<^verbatim>\<open>void*\<close>, kept as the integer value of the pointer.
\<close>

datatype js_value =
    VUndefined
  | VNull
  | VBoolean bool
  | VInt32 int
  | VNumber float64
  | VString string
  | VExternal int
  | VObject obj_class addr

fun IsUndefined :: "js_value \<Rightarrow> bool" where
  "IsUndefined VUndefined = True"
| "IsUndefined _ = False"

fun IsNull :: "js_value \<Rightarrow> bool" where
  "IsNull VNull = True"
| "IsNull _ = False"

fun IsBoolean :: "js_value \<Rightarrow> bool" where
  "IsBoolean (VBoolean b) = True"
| "IsBoolean _ = False"

fun IsTrue :: "js_value \<Rightarrow> bool" where
  "IsTrue (VBoolean b) = b"
| "IsTrue _ = False"

fun IsFalse :: "js_value \<Rightarrow> bool" where
  "IsFalse (VBoolean b) = (\<not> b)"
| "IsFalse _ = False"

fun IsInt32 :: "js_value \<Rightarrow> bool" where
  "IsInt32 (VInt32 i) = True"
| "IsInt32 _ = False"

fun IsNumber :: "js_value \<Rightarrow> bool" where
  "IsNumber (VInt32 i) = True"
| "IsNumber (VNumber d) = True"
| "IsNumber _ = False"

fun IsString :: "js_value \<Rightarrow> bool" where
  "IsString (VString s) = True"
| "IsString _ = False"

fun IsExternal :: "js_value \<Rightarrow> bool" where
  "IsExternal (VExternal x) = True"
| "IsExternal _ = False"

fun IsObject :: "js_value \<Rightarrow> bool" where
  "IsObject (VObject c a) = True"
| "IsObject _ = False"

fun has_class :: "obj_class \<Rightarrow> js_value \<Rightarrow> bool" where
  "has_class k (VObject c a) = (c = k)"
| "has_class k _ = False"

definition IsBooleanObject :: "js_value \<Rightarrow> bool" where
  "IsBooleanObject = has_class BooleanObject"

definition IsNumberObject :: "js_value \<Rightarrow> bool" where
  "IsNumberObject = has_class NumberObject"

definition IsStringObject :: "js_value \<Rightarrow> bool" where
  "IsStringObject = has_class StringObject"

definition IsDate :: "js_value \<Rightarrow> bool" where
  "IsDate = has_class DateObject"

definition IsArray :: "js_value \<Rightarrow> bool" where
  "IsArray = has_class ArrayObject"

definition IsRegExp :: "js_value \<Rightarrow> bool" where
  "IsRegExp = has_class RegExpObject"

definition IsFunction :: "js_value \<Rightarrow> bool" where
  "IsFunction = has_class FunctionObject"

definition IsNativeError :: "js_value \<Rightarrow> bool" where
  "IsNativeError = has_class NativeErrorObject"

text \<open>\<^verbatim>\<open>handle.As<Object>()\<close> after a successful \<^verbatim>\<open>IsObject()\<close>: the object's identity.\<close>

fun As_Object :: "js_value \<Rightarrow> addr option" where
  "As_Object (VObject c a) = Some a"
| "As_Object _ = None"

text \<open>
  The integer read back from a pointer, \<^verbatim>\<open>(int32_t)ptr\<close>: the low 32 bits, signed.
\<close>

definition int32_cast :: "int \<Rightarrow> int" where
  "int32_cast x = sint (word_of_int x :: 32 word)"

subsection \<open>Objects of the engine heap\<close>

text \<open>
  An internal field holds a value (\<open>undefined\<close> until it is set) or an aligned native
  pointer (\<open>None\<close> is \<^verbatim>\<open>nullptr\<close>).
\<close>

datatype slot = SlotValue js_value | SlotPointer "tref option"

record js_object =
  internal_fields :: "slot list"
  hidden_values :: "string \<Rightarrow> js_value option"

definition InternalFieldCount :: "js_object \<Rightarrow> nat" where
  "InternalFieldCount obj = length (internal_fields obj)"

definition GetInternalField :: "js_object \<Rightarrow> nat \<Rightarrow> slot" where
  "GetInternalField obj i = internal_fields obj ! i"

definition GetHiddenValue :: "js_object \<Rightarrow> string \<Rightarrow> js_value option" where
  "GetHiddenValue obj k = hidden_values obj k"

subsection \<open>ProxyTypes.h\<close>

datatype JSValueType =
    JSV_ExecutionError | JSV_CompilerError | JSV_InternalError
  | JSV_Undefined | JSV_Null | JSV_Bool | JSV_BoolObject | JSV_Int32 | JSV_Number
  | JSV_NumberObject | JSV_String | JSV_StringObject | JSV_Object | JSV_Function
  | JSV_Date | JSV_Array | JSV_RegExp

fun JSValueType_int :: "JSValueType \<Rightarrow> int" where
  "JSValueType_int JSV_ExecutionError = -3"
| "JSValueType_int JSV_CompilerError = -2"
| "JSValueType_int JSV_InternalError = -1"
| "JSValueType_int JSV_Undefined = 0"
| "JSValueType_int JSV_Null = 1"
| "JSValueType_int JSV_Bool = 2"
| "JSValueType_int JSV_BoolObject = 3"
| "JSValueType_int JSV_Int32 = 4"
| "JSValueType_int JSV_Number = 5"
| "JSValueType_int JSV_NumberObject = 6"
| "JSValueType_int JSV_String = 7"
| "JSValueType_int JSV_StringObject = 8"
| "JSValueType_int JSV_Object = 9"
| "JSValueType_int JSV_Function = 10"
| "JSValueType_int JSV_Date = 11"
| "JSValueType_int JSV_Array = 12"
| "JSValueType_int JSV_RegExp = 13"

text \<open>
  \<^verbatim>\<open>HandleValue\<close>: a union of a boolean, a 64-bit integer and a double, and the pointer to a
  marshalled string (\<open>None\<close> is \<^verbatim>\<open>nullptr\<close>).
\<close>

datatype HandleValue_union = V8Boolean bool | V8Integer int | V8Number float64

record HandleValue =
  v_union :: HandleValue_union
  V8String :: "string option"

text \<open>
  \<^verbatim>\<open>HandleProxy\<close>.  The member read and written by \<^verbatim>\<open>GetManagedObjectID\<close> is called
  \<^verbatim>\<open>_ManagedObjectID\<close> in HandleProxy.cpp and \<^verbatim>\<open>_ObjectID\<close> in the header
  (\<^verbatim>\<open>SetManagedObjectID\<close>); it is one field.  \<open>h_Handle\<close> is the persistent engine
  reference, \<open>None\<close> when it is empty.
\<close>

record HandleProxy =
  h_ID :: int
  h_ManagedObjectID :: int
  h_Type :: JSValueType
  h_Value :: HandleValue
  h_ManagedReferenceCount :: int
  h_Disposed :: int
  h_EngineID :: int
  h_EngineProxy :: eref
  h_Handle :: "js_value option"

definition IsError :: "HandleProxy \<Rightarrow> bool" where
  "IsError h = (JSValueType_int (h_Type h) < 0)"

datatype TProxyObjectType = ObjectTemplateProxyClass | FunctionTemplateProxyClass | V8EngineProxyClass

record ManagedAccessorInfo =
  ma_ObjectProxy :: tref
  ma_ObjectID :: int
  ma_Data :: js_value
  ma_This :: js_value

text \<open>
  Managed call-backs are function pointers supplied by the host (\<open>None\<close> is
  \<^verbatim>\<open>nullptr\<close>).  They return a \<^verbatim>\<open>HandleProxy*\<close>, null for "nothing returned".
\<close>

type_synonym ManagedNamedPropertyGetter = "string \<Rightarrow> ManagedAccessorInfo \<Rightarrow> href option"
type_synonym ManagedJSFunctionCallback = "int \<Rightarrow> bool \<Rightarrow> href \<Rightarrow> href list \<Rightarrow> nat \<Rightarrow> href option"
type_synonym ManagedV8GarbageCollectionRequestCallback = "href \<Rightarrow> HandleProxy \<Rightarrow> bool"

record ObjectTemplateProxy =
  ot_EngineProxy :: eref
  ot_EngineID :: int
  NamedPropertyGetter :: "ManagedNamedPropertyGetter option"

record FunctionTemplateProxy =
  ft_EngineProxy :: eref
  ft_EngineID :: int
  ft_ManagedCallback :: "ManagedJSFunctionCallback option"

datatype ProxyObject =
    ObjectTemplate ObjectTemplateProxy
  | FunctionTemplate FunctionTemplateProxy
  | EngineObject

fun ProxyBase_Type :: "ProxyObject \<Rightarrow> TProxyObjectType" where
  "ProxyBase_Type (ObjectTemplate t) = ObjectTemplateProxyClass"
| "ProxyBase_Type (FunctionTemplate t) = FunctionTemplateProxyClass"
| "ProxyBase_Type EngineObject = V8EngineProxyClass"

record V8EngineProxy =
  e_EngineID :: int
  e_ManagedV8GarbageCollectionRequestCallback :: "ManagedV8GarbageCollectionRequestCallback option"

subsection \<open>The state of the process\<close>

datatype field = F_Handle | F_Type | F_ManagedObjectID | F_Value | F_Disposed

text \<open>
  What a test double of the engine and of the registry records: a lock or unlock of an
  engine's \<^verbatim>\<open>_HandleSystemMutex\<close>, a call into the V8 API, a write to a member of a
  handle proxy, and a call of a managed call-back.
\<close>

datatype event =
    MutexLock eref
  | MutexUnlock eref
  | V8Call string
  | Store href field
  | HostCall string

text \<open>
  \<open>DisposedEngines\<close> is the static record of disposed engines, by engine identifier;
  \<open>freed_engines\<close> are the addresses of the engine proxies whose memory was released by
  \<^verbatim>\<open>delete engine\<close>.  The handle proxies of a destroyed engine stay allocated ("the
  managed side owns undisposed proxy handles, they are not deleted with the engine") and
  keep its address in \<^verbatim>\<open>_EngineProxy\<close>.
\<close>

record world =
  DisposedEngines :: "int \<Rightarrow> bool"
  engines :: "eref \<Rightarrow> V8EngineProxy"
  handles :: "href \<Rightarrow> HandleProxy option"
  templates :: "tref \<Rightarrow> ProxyObject"
  heap :: "addr \<Rightarrow> js_object"
  weak_nodes :: "href set"
  freed_engines :: "eref set"
  trace :: "event list"

text \<open>
  Undefined behaviour of the C++ that the state can detect is a value: dereferencing an
  empty engine handle, a freed handle proxy, calling a null function pointer, reading an
  object through a cast to a type it does not have.  \<open>Exception\<close> is a thrown
  \<^verbatim>\<open>std::exception\<close> with its message.
\<close>

datatype fault = EmptyHandleDeref | DanglingPointer | NullFunctionCall | BadCast

datatype error = Exception string | Fault fault | OutOfFuel

definition emit :: "event \<Rightarrow> world \<Rightarrow> world" where
  "emit e w = w\<lparr>trace := trace w @ [e]\<rparr>"

definition update_handle :: "href \<Rightarrow> field \<Rightarrow> (HandleProxy \<Rightarrow> HandleProxy) \<Rightarrow> world \<Rightarrow> world" where
  "update_handle p fld f w =
     emit (Store p fld) (w\<lparr>handles := (handles w)(p := map_option f (handles w p))\<rparr>)"

section \<open>HandleProxy.cpp\<close>

subsection \<open>GetManagedObjectID\<close>

definition GetManagedObjectID :: "href \<Rightarrow> world \<Rightarrow> (error + int) \<times> world" where
  "GetManagedObjectID p w =
     (case handles w p of
        None \<Rightarrow> (Inl (Fault DanglingPointer), w)
      | Some h \<Rightarrow>
          if h_ManagedObjectID h < -1 \<or> h_ManagedObjectID h \<ge> 0 then
            (Inr (h_ManagedObjectID h), w)
          else
            let w1 = update_handle p F_ManagedObjectID (\<lambda>h. h\<lparr>h_ManagedObjectID := -2\<rparr>) w in
            (case h_Handle h of
               None \<Rightarrow> (Inl (Fault EmptyHandleDeref), w1)
             | Some v \<Rightarrow>
                 let w2 = emit (V8Call ''Value::IsObject'') w1 in
                 (case As_Object v of
                    None \<Rightarrow> (Inr (-2), w2)
                  | Some obj \<Rightarrow>
                      let w3 = emit (V8Call ''Object::InternalFieldCount'') w2 in
                      if InternalFieldCount (heap w3 obj) > 1 then
                        let w4 = emit (V8Call ''Object::GetInternalField'') w3;
                            field = GetInternalField (heap w4 obj) 1;
                            w5 = emit (V8Call ''Value::IsExternal'') w4
                        in (case field of
                              SlotValue (VExternal x) \<Rightarrow>
                                let w6 = emit (V8Call ''External::Value'') w5;
                                    w7 = update_handle p F_ManagedObjectID
                                           (\<lambda>h. h\<lparr>h_ManagedObjectID := int32_cast x\<rparr>) w6
                                in (Inr (int32_cast x), w7)
                            | _ \<Rightarrow> (Inr (-2), w5))
                      else
                        let w4 = emit (V8Call ''Object::GetHiddenValue'') w3 in
                        (case GetHiddenValue (heap w4 obj) ''ManagedObjectID'' of
                           None \<Rightarrow> (Inr (-2), w4)
                         | Some hv \<Rightarrow>
                             let w5 = emit (V8Call ''Value::IsInt32'') w4 in
                             (case hv of
                                VInt32 i \<Rightarrow>
                                  let w6 = emit (V8Call ''Value::Int32Value'') w5;
                                      w7 = update_handle p F_ManagedObjectID
                                             (\<lambda>h. h\<lparr>h_ManagedObjectID := i\<rparr>) w6
                                  in (Inr i, w7)
                              | _ \<Rightarrow> (Inr (-2), w5))))))"

subsection \<open>Code of the repository that is not among the sources read here, and the engine\<close>

text \<open>
  Modelled from the spec: \<^verbatim>\<open>V8EngineProxy::IsDisposed\<close> is declared in the header and
  defined in a file that is not at hand.  The header keeps "a record of disposed engines"
  in the static \<^verbatim>\<open>_DisposedEngines\<close>, indexed by engine identifier; the spec calls it
  the disposed flag "checked ... before touching engine memory".
\<close>

definition IsDisposed :: "world \<Rightarrow> int \<Rightarrow> bool" where
  "IsDisposed w engineID = DisposedEngines w engineID"

text \<open>
  Modelled from the spec: \<^verbatim>\<open>DestroyV8EngineProxy\<close> is \<^verbatim>\<open>delete engine\<close>, and the
  destructor of the engine proxy is not among the sources.  By the spec the engine "marks
  itself disposed before releasing engine-internal state"; the delete then releases the
  memory of the proxy.  \<open>begin_teardown\<close> is the state between the two, which an operation
  racing the teardown can observe.
\<close>

definition begin_teardown :: "eref \<Rightarrow> world \<Rightarrow> world" where
  "begin_teardown engine w =
     w\<lparr>DisposedEngines := (DisposedEngines w)(e_EngineID (engines w engine) := True)\<rparr>"

definition DestroyV8EngineProxy :: "eref \<Rightarrow> world \<Rightarrow> world" where
  "DestroyV8EngineProxy engine w =
     (let w1 = begin_teardown engine w
      in w1\<lparr>freed_engines := insert engine (freed_engines w1)\<rparr>)"

text \<open>
  The other members defined outside the sources at hand, and the operations of the engine
  on values and objects, are parameters of the model: \<^verbatim>\<open>HandleValue::Dispose\<close>,
  \<^verbatim>\<open>V8EngineProxy::DisposeHandleProxy\<close>, \<^verbatim>\<open>V8EngineProxy::GetHandleProxy\<close>, the
  conversions of \<^verbatim>\<open>v8::Value\<close> and the property operations of \<^verbatim>\<open>v8::Object\<close>.
\<close>

datatype key = Named string | Indexed nat

record env =
  HandleValue_Dispose :: "HandleValue \<Rightarrow> HandleValue"
  V8EngineProxy_DisposeHandleProxy :: "href \<Rightarrow> world \<Rightarrow> world"
  V8EngineProxy_GetHandleProxy :: "js_value option \<Rightarrow> world \<Rightarrow> href \<times> world"
  Value_BooleanValue :: "js_value \<Rightarrow> bool"
  Value_Int32Value :: "js_value \<Rightarrow> int"
  Value_NumberValue :: "js_value \<Rightarrow> float64"
  Value_ToString :: "js_value \<Rightarrow> string"
  Object_Get :: "addr \<Rightarrow> key \<Rightarrow> world \<Rightarrow> js_value option \<times> world"
  Object_Set :: "addr \<Rightarrow> key \<Rightarrow> js_value \<Rightarrow> int \<Rightarrow> world \<Rightarrow> bool \<times> world"
  Object_Delete :: "addr \<Rightarrow> key \<Rightarrow> world \<Rightarrow> bool \<times> world"
  Object_GetPropertyAttributes :: "addr \<Rightarrow> string \<Rightarrow> world \<Rightarrow> int \<times> world"
  Object_GetPropertyNames :: "addr \<Rightarrow> world \<Rightarrow> js_value option \<times> world"
  Object_GetOwnPropertyNames :: "addr \<Rightarrow> world \<Rightarrow> js_value option \<times> world"
  Object_GetPrototype :: "addr \<Rightarrow> world \<Rightarrow> js_value option \<times> world"
  Array_Length :: "addr \<Rightarrow> world \<Rightarrow> int"

text \<open>
  Modelled from the spec: the constructor \<^verbatim>\<open>_StringItem(engine, v8::String*)\<close> is not
  among the sources; the spec has it "convert the engine string to a host-consumable
  UTF-16 buffer".  Its argument is obtained by the unchecked \<^verbatim>\<open>As<String>()\<close>, which is
  undefined on a value that is not a string.
\<close>

fun StringItem_String :: "js_value \<Rightarrow> error + string" where
  "StringItem_String (VString s) = Inr s"
| "StringItem_String _ = Inl (Fault BadCast)"

subsection \<open>SetHandle\<close>

text \<open>The chain of type tests of \<^verbatim>\<open>SetHandle\<close>, in the order of the source.\<close>

definition SetHandle_Type :: "js_value \<Rightarrow> JSValueType" where
  "SetHandle_Type v =
    (if IsBoolean v then JSV_Bool
     else if IsBooleanObject v then JSV_BoolObject
     else if IsInt32 v then JSV_Int32
     else if IsNumber v then JSV_Number
     else if IsNumberObject v then JSV_NumberObject
     else if IsString v then JSV_String
     else if IsStringObject v then JSV_StringObject
     else if IsDate v then JSV_Date
     else if IsArray v then JSV_Array
     else if IsRegExp v then JSV_RegExp
     else if IsNull v then JSV_Object
     else if IsFunction v then JSV_Function
     else if IsExternal v then JSV_Undefined
     else if IsNativeError v then JSV_Undefined
     else if IsUndefined v then JSV_Undefined
     else if IsObject v then JSV_Object
     else if IsFalse v then JSV_Bool
     else if IsTrue v then JSV_Bool
     else JSV_Undefined)"

text \<open>
  Releasing the persistent reference: \<^verbatim>\<open>_Handle.Dispose(); _Handle.Clear();\<close>.  The
  weak mark of a persistent reference lives in the engine and goes with it.
\<close>

definition release_Handle :: "href \<Rightarrow> world \<Rightarrow> world" where
  "release_Handle p w =
     (let w1 = emit (V8Call ''Persistent::Dispose'') w;
          w2 = w1\<lparr>weak_nodes := weak_nodes w1 - {p}\<rparr>
      in update_handle p F_Handle (\<lambda>h. h\<lparr>h_Handle := None\<rparr>) w2)"

definition SetHandle :: "href \<Rightarrow> js_value option \<Rightarrow> world \<Rightarrow> (error + unit) \<times> world" where
  "SetHandle p handle w =
     (case handles w p of
        None \<Rightarrow> (Inl (Fault DanglingPointer), w)
      | Some h \<Rightarrow>
          let w1 = (if h_Handle h \<noteq> None then release_Handle p w else w);
              w2 = emit (V8Call ''Persistent::New'') w1;
              w3 = update_handle p F_Handle (\<lambda>h. h\<lparr>h_Handle := handle\<rparr>) w2
          in (case handle of
                None \<Rightarrow> (Inl (Fault EmptyHandleDeref), w3)
              | Some v \<Rightarrow>
                  let w4 = emit (V8Call ''Value::Is...'') w3
                  in (Inr (), update_handle p F_Type (\<lambda>h. h\<lparr>h_Type := SetHandle_Type v\<rparr>) w4)))"

subsection \<open>MakeWeak, MakeStrong\<close>

text \<open>
  Both read \<^verbatim>\<open>_EngineProxy->_Isolate\<close> for the argument of the engine call, with no test
  of the disposed flag: on a handle whose engine proxy was freed that is a read of freed
  memory.
\<close>

definition MakeWeak :: "href \<Rightarrow> world \<Rightarrow> (error + unit) \<times> world" where
  "MakeWeak p w =
     (case handles w p of
        None \<Rightarrow> (Inl (Fault DanglingPointer), w)
      | Some h \<Rightarrow>
          if h_EngineProxy h \<in> freed_engines w then (Inl (Fault DanglingPointer), w)
          else
            let w1 = emit (V8Call ''Persistent::MakeWeak'') w
            in (case h_Handle h of
                  None \<Rightarrow> (Inl (Fault EmptyHandleDeref), w1)
                | Some v \<Rightarrow> (Inr (), w1\<lparr>weak_nodes := insert p (weak_nodes w1)\<rparr>)))"

definition MakeStrong :: "href \<Rightarrow> world \<Rightarrow> (error + unit) \<times> world" where
  "MakeStrong p w =
     (case handles w p of
        None \<Rightarrow> (Inl (Fault DanglingPointer), w)
      | Some h \<Rightarrow>
          if h_EngineProxy h \<in> freed_engines w then (Inl (Fault DanglingPointer), w)
          else
            let w1 = emit (V8Call ''Persistent::ClearWeak'') w
            in (case h_Handle h of
                  None \<Rightarrow> (Inl (Fault EmptyHandleDeref), w1)
                | Some v \<Rightarrow> (Inr (), w1\<lparr>weak_nodes := weak_nodes w1 - {p}\<rparr>)))"

subsection \<open>The revival call-back of the engine's collector\<close>

text \<open>
  \<open>isolate_data\<close> is \<^verbatim>\<open>isolate->GetData()\<close>, the engine proxy of the isolate; the
  managed call-back sees the handle proxy it is given.
\<close>

definition priv_RevivableCallback :: "eref \<Rightarrow> href \<Rightarrow> world \<Rightarrow> (error + unit) \<times> world" where
  "priv_RevivableCallback isolate_data parameter w =
     (case handles w parameter of
        None \<Rightarrow> (Inl (Fault DanglingPointer), w)
      | Some handleProxy \<Rightarrow>
          let engineProxy = engines w isolate_data;
              (dispose, w1) =
                (case e_ManagedV8GarbageCollectionRequestCallback engineProxy of
                   None \<Rightarrow> (True, w)
                 | Some callback \<Rightarrow>
                     if h_ManagedObjectID handleProxy \<ge> 0 then
                       (callback parameter handleProxy,
                        emit (HostCall ''ManagedV8GarbageCollectionRequestCallback'') w)
                     else (True, w))
          in if dispose then
               (if h_Handle handleProxy \<noteq> None then (Inr (), release_Handle parameter w1)
                else (Inr (), w1))
             else (Inr (), w1))"

subsection \<open>UpdateValue\<close>

definition set_union :: "href \<Rightarrow> HandleValue_union \<Rightarrow> world \<Rightarrow> world" where
  "set_union p u w =
     update_handle p F_Value (\<lambda>h. h\<lparr>h_Value := (h_Value h)\<lparr>v_union := u\<rparr>\<rparr>) w"

definition set_V8String :: "href \<Rightarrow> string \<Rightarrow> world \<Rightarrow> world" where
  "set_V8String p s w =
     update_handle p F_Value (\<lambda>h. h\<lparr>h_Value := (h_Value h)\<lparr>V8String := Some s\<rparr>\<rparr>) w"

text \<open>
  \<^verbatim>\<open>_Value.V8String = _StringItem(_EngineProxy, *_Handle.As<String>()).String\<close>.  The
  constructor is handed the engine pointer; what it reads through it is not in the
  sources, so nothing is said of it here.
\<close>

definition read_String :: "href \<Rightarrow> js_value option \<Rightarrow> world \<Rightarrow> (error + unit) \<times> world" where
  "read_String p handle w =
     (case handle of
        None \<Rightarrow> (Inl (Fault EmptyHandleDeref), w)
      | Some v \<Rightarrow>
          let w1 = emit (V8Call ''String::Write'') w
          in (case StringItem_String v of
                Inl e \<Rightarrow> (Inl e, w1)
              | Inr s \<Rightarrow> (Inr (), set_V8String p s w1)))"

definition read_Boolean :: "env \<Rightarrow> href \<Rightarrow> js_value option \<Rightarrow> world \<Rightarrow> (error + unit) \<times> world" where
  "read_Boolean E p handle w =
     (case handle of
        None \<Rightarrow> (Inl (Fault EmptyHandleDeref), w)
      | Some v \<Rightarrow>
          (Inr (), set_union p (V8Boolean (Value_BooleanValue E v))
                     (emit (V8Call ''Value::BooleanValue'') w)))"

definition read_Number :: "env \<Rightarrow> href \<Rightarrow> js_value option \<Rightarrow> world \<Rightarrow> (error + unit) \<times> world" where
  "read_Number E p handle w =
     (case handle of
        None \<Rightarrow> (Inl (Fault EmptyHandleDeref), w)
      | Some v \<Rightarrow>
          (Inr (), set_union p (V8Number (Value_NumberValue E v))
                     (emit (V8Call ''Value::NumberValue'') w)))"

definition UpdateValue :: "env \<Rightarrow> href \<Rightarrow> world \<Rightarrow> (error + unit) \<times> world" where
  "UpdateValue E p w =
     (case handles w p of
        None \<Rightarrow> (Inl (Fault DanglingPointer), w)
      | Some h \<Rightarrow>
          let w1 = update_handle p F_Value (\<lambda>h. h\<lparr>h_Value := HandleValue_Dispose E (h_Value h)\<rparr>) w
          in (case h_Type h of
                JSV_Bool \<Rightarrow> read_Boolean E p (h_Handle h) w1
              | JSV_BoolObject \<Rightarrow> read_Boolean E p (h_Handle h) w1
              | JSV_Int32 \<Rightarrow>
                  (case h_Handle h of
                     None \<Rightarrow> (Inl (Fault EmptyHandleDeref), w1)
                   | Some v \<Rightarrow>
                       (Inr (), set_union p (V8Integer (Value_Int32Value E v))
                                  (emit (V8Call ''Value::Int32Value'') w1)))
              | JSV_Number \<Rightarrow> read_Number E p (h_Handle h) w1
              | JSV_NumberObject \<Rightarrow> read_Number E p (h_Handle h) w1
              | JSV_String \<Rightarrow> read_String p (h_Handle h) w1
              | JSV_StringObject \<Rightarrow> read_String p (h_Handle h) w1
              | JSV_Date \<Rightarrow>
                  (case read_Number E p (h_Handle h) w1 of
                     (Inl e, w2) \<Rightarrow> (Inl e, w2)
                   | (Inr u, w2) \<Rightarrow> read_String p (h_Handle h) w2)
              | JSV_Undefined \<Rightarrow> (Inr (), set_union p (V8Number 0) w1)
              | _ \<Rightarrow>
                  (case h_Handle h of
                     None \<Rightarrow> (Inr (), w1)
                   | Some v \<Rightarrow>
                       let w2 = emit (V8Call ''Value::ToString'') w1;
                           w3 = emit (V8Call ''String::Write'') w2
                       in (Inr (), set_V8String p (Value_ToString E v) w3))))"

subsection \<open>Disposal\<close>

text \<open>
  \<^verbatim>\<open>_Dispose\<close>.  Its first statement constructs an unnamed
  \<^verbatim>\<open>std::lock_guard\<close>: a temporary, destroyed at the end of that statement, so the mutex
  is locked and unlocked before the next statement runs.  \<^verbatim>\<open>delete this\<close> runs the
  destructor, which is \<^verbatim>\<open>_Dispose(false); _Value.Dispose();\<close>, and then frees the
  memory; the destructor's call of \<^verbatim>\<open>_Dispose\<close> is the recursion, bounded here by fuel.
  The lock is taken through \<^verbatim>\<open>_EngineProxy\<close> before the disposed flag is tested: on a
  handle whose engine proxy was freed, it is a lock of a mutex in freed memory.
\<close>

fun priv_Dispose :: "nat \<Rightarrow> env \<Rightarrow> bool \<Rightarrow> href \<Rightarrow> world \<Rightarrow> (error + bool) \<times> world" where
  "priv_Dispose 0 E registerDisposal p w = (Inl OutOfFuel, w)"
| "priv_Dispose (Suc n) E registerDisposal p w =
     (case handles w p of
        None \<Rightarrow> (Inl (Fault DanglingPointer), w)
      | Some h \<Rightarrow>
          let w0 = emit (MutexLock (h_EngineProxy h)) w
          in if h_EngineProxy h \<in> freed_engines w0 then (Inl (Fault DanglingPointer), w0)
             else
             let w1 = emit (MutexUnlock (h_EngineProxy h)) w0
             in if IsDisposed w1 (h_EngineID h) then
               (case priv_Dispose n E False p w1 of
                  (Inl e, w2) \<Rightarrow> (Inl e, w2)
                | (Inr b, w2) \<Rightarrow>
                    let w3 = update_handle p F_Value
                               (\<lambda>h. h\<lparr>h_Value := HandleValue_Dispose E (h_Value h)\<rparr>) w2
                    in (Inr False, w3\<lparr>handles := (handles w3)(p := None)\<rparr>))
             else if h_Disposed h = 1 then
               (if registerDisposal then
                  (Inr True, V8EngineProxy_DisposeHandleProxy E p w1)
                else
                  let w2 = update_handle p F_ManagedObjectID (\<lambda>h. h\<lparr>h_ManagedObjectID := -1\<rparr>) w1;
                      w3 = update_handle p F_Value
                             (\<lambda>h. h\<lparr>h_Value := HandleValue_Dispose E (h_Value h)\<rparr>) w2;
                      w4 = update_handle p F_Disposed (\<lambda>h. h\<lparr>h_Disposed := 2\<rparr>) w3
                  in (Inr True, w4))
             else (Inr False, w1))"

definition Dispose :: "nat \<Rightarrow> env \<Rightarrow> href \<Rightarrow> world \<Rightarrow> (error + bool) \<times> world" where
  "Dispose n E p w = priv_Dispose n E True p w"

section \<open>ObjectTemplateProxy.cpp: the named-property getter\<close>

record AccessorInfo =
  ai_Holder :: addr
  ai_This :: js_value
  ai_Data :: js_value

fun slot_IsUndefined :: "slot \<Rightarrow> bool" where
  "slot_IsUndefined (SlotValue v) = IsUndefined v"
| "slot_IsUndefined (SlotPointer q) = False"

text \<open>
  \<^verbatim>\<open>ObjectTemplateProxy::GetProperty(Local<String>, const AccessorInfo&)\<close>.  The result
  is the returned handle, \<open>None\<close> for the empty handle.  Reading an aligned pointer from a
  field that holds a value, and the payload of a field that is not an
  \<^verbatim>\<open>External\<close>, are undefined; the test \<^verbatim>\<open>proxy->Type == ObjectTemplateProxyClass\<close> is
  the case distinction on the proxy object.
\<close>

definition ObjectTemplateProxy_GetProperty ::
    "string \<Rightarrow> AccessorInfo \<Rightarrow> world \<Rightarrow> (error + js_value option) \<times> world" where
  "ObjectTemplateProxy_GetProperty hName info w =
     (let obj = ai_Holder info;
          w1 = emit (V8Call ''Object::InternalFieldCount'') w
      in if InternalFieldCount (heap w1 obj) > 1 then
           let w2 = emit (V8Call ''Object::GetInternalField'') w1;
               field = GetInternalField (heap w2 obj) 0;
               w3 = emit (V8Call ''Value::IsUndefined'') w2
           in if \<not> slot_IsUndefined field then
                let w4 = emit (V8Call ''Object::GetAlignedPointerFromInternalField'') w3
                in (case field of
                      SlotValue v \<Rightarrow> (Inl (Fault BadCast), w4)
                    | SlotPointer None \<Rightarrow> (Inr None, w4)
                    | SlotPointer (Some proxy) \<Rightarrow>
                        (case templates w4 proxy of
                           ObjectTemplate ot \<Rightarrow>
                             let w5 = emit (V8Call ''Object::GetInternalField'') w4;
                                 w6 = emit (V8Call ''External::Value'') w5
                             in (case GetInternalField (heap w5 obj) 1 of
                                   SlotValue (VExternal x) \<Rightarrow>
                                     let managedObjectID = int32_cast x;
                                         maInfo = \<lparr>ma_ObjectProxy = proxy, ma_ObjectID = managedObjectID,
                                                   ma_Data = ai_Data info, ma_This = ai_This info\<rparr>;
                                         w7 = emit (V8Call ''String::Write'') w6
                                     in (case NamedPropertyGetter ot of
                                           None \<Rightarrow> (Inl (Fault NullFunctionCall), w7)
                                         | Some getter \<Rightarrow>
                                             let w8 = emit (HostCall ''NamedPropertyGetter'') w7
                                             in (case getter hName maInfo of
                                                   None \<Rightarrow> (Inr None, w8)
                                                 | Some result \<Rightarrow>
                                                     (case handles w8 result of
                                                        None \<Rightarrow> (Inl (Fault DanglingPointer), w8)
                                                      | Some rh \<Rightarrow> (Inr (h_Handle rh), w8))))
                                 | _ \<Rightarrow> (Inl (Fault BadCast), w6))
                         | _ \<Rightarrow> (Inr None, w4)))
              else (Inr None, w3)
         else (Inr None, w1))"

section \<open>FunctionTemplateProxy.cpp: the invocation call-back\<close>

record Arguments =
  args_Data :: js_value
  args_Holder :: js_value
  args_IsConstructCall :: bool
  args_values :: "js_value list"

text \<open>
  What the engine sees of a call-back: the handle it returns (\<open>None\<close> for the empty handle,
  which the engine reads as \<open>undefined\<close>), or an exception thrown into the script, an
  \<^verbatim>\<open>Error\<close> object with the given message.
\<close>

datatype outcome = Return "js_value option" | ThrowError string

text \<open>The loop \<^verbatim>\<open>for (i = 0; i < argLength; i++) _args[i] = GetHandleProxy(args[i])\<close>.\<close>

fun GetHandleProxies :: "env \<Rightarrow> js_value list \<Rightarrow> world \<Rightarrow> href list \<times> world" where
  "GetHandleProxies E [] w = ([], w)"
| "GetHandleProxies E (a # as) w =
     (let (p, w1) = V8EngineProxy_GetHandleProxy E (Some a) w;
          (ps, w2) = GetHandleProxies E as w1
      in (p # ps, w2))"

definition InvocationCallbackProxy :: "env \<Rightarrow> Arguments \<Rightarrow> world \<Rightarrow> (error + outcome) \<times> world" where
  "InvocationCallbackProxy E args w =
     (case args_Data args of
        VExternal x \<Rightarrow>
          (case templates w x of
             FunctionTemplate funcTempProxy \<Rightarrow>
               (case ft_ManagedCallback funcTempProxy of
                  None \<Rightarrow> (Inr (Return None), w)
                | Some callback \<Rightarrow>
                    let argLength = length (args_values args);
                        (xargs, w1) = GetHandleProxies E (args_values args) w;
                        (this, w2) = V8EngineProxy_GetHandleProxy E (Some (args_Holder args)) w1;
                        w3 = emit (HostCall ''ManagedJSFunctionCallback'') w2
                    in (case callback 0 (args_IsConstructCall args) this xargs argLength of
                          None \<Rightarrow> (Inr (Return None), w3)
                        | Some result \<Rightarrow>
                            (case handles w3 result of
                               None \<Rightarrow> (Inl (Fault DanglingPointer), w3)
                             | Some rh \<Rightarrow>
                                 if IsError rh then
                                   (case h_Handle rh of
                                      None \<Rightarrow> (Inl (Fault EmptyHandleDeref), w3)
                                    | Some v \<Rightarrow>
                                        let w4 = emit (V8Call ''Value::ToString'') w3;
                                            w5 = emit (V8Call ''ThrowException'') w4
                                        in (Inr (ThrowError (Value_ToString E v)), w5))
                                 else (Inr (Return (h_Handle rh)), w3))))
           | _ \<Rightarrow> (Inl (Fault BadCast), w))
      | _ \<Rightarrow> (Inl (Fault BadCast), w))"

section \<open>Exports.cpp\<close>

subsection \<open>ConnectObject\<close>

definition SetAlignedPointerInInternalField :: "addr \<Rightarrow> nat \<Rightarrow> tref option \<Rightarrow> world \<Rightarrow> world" where
  "SetAlignedPointerInInternalField obj i q w =
     emit (V8Call ''Object::SetAlignedPointerInInternalField'')
       (w\<lparr>heap := (heap w)(obj := (heap w obj)
             \<lparr>internal_fields := (internal_fields (heap w obj))[i := SlotPointer q]\<rparr>)\<rparr>)"

definition SetInternalField :: "addr \<Rightarrow> nat \<Rightarrow> js_value \<Rightarrow> world \<Rightarrow> world" where
  "SetInternalField obj i v w =
     emit (V8Call ''Object::SetInternalField'')
       (w\<lparr>heap := (heap w)(obj := (heap w obj)
             \<lparr>internal_fields := (internal_fields (heap w obj))[i := SlotValue v]\<rparr>)\<rparr>)"

definition SetHiddenValue :: "addr \<Rightarrow> string \<Rightarrow> js_value \<Rightarrow> world \<Rightarrow> world" where
  "SetHiddenValue obj k v w =
     emit (V8Call ''Object::SetHiddenValue'')
       (w\<lparr>heap := (heap w)(obj := (heap w obj)
             \<lparr>hidden_values := (hidden_values (heap w obj))(k := Some v)\<rparr>)\<rparr>)"

definition SetManagedObjectID :: "href \<Rightarrow> int \<Rightarrow> world \<Rightarrow> world" where
  "SetManagedObjectID p ident w =
     update_handle p F_ManagedObjectID (\<lambda>h. h\<lparr>h_ManagedObjectID := ident\<rparr>) w"

definition ConnectObject :: "href \<Rightarrow> int \<Rightarrow> tref option \<Rightarrow> world \<Rightarrow> (error + unit) \<times> world" where
  "ConnectObject handleProxy managedObjectID templateProxy w =
     (case handles w handleProxy of
        None \<Rightarrow> (Inl (Fault DanglingPointer), w)
      | Some h \<Rightarrow>
          let w1 =
            (case h_Handle h of
               None \<Rightarrow> w
             | Some handle \<Rightarrow>
                 let wa = emit (V8Call ''Value::IsObject'') w
                 in (case As_Object handle of
                       None \<Rightarrow> wa
                     | Some obj \<Rightarrow>
                         let wb = emit (V8Call ''Object::InternalFieldCount'') wa;
                             wc = (if InternalFieldCount (heap wb obj) > 1 then
                                     let wd = (if templateProxy \<noteq> None
                                               then SetAlignedPointerInInternalField obj 0 templateProxy wb
                                               else wb)
                                     in SetInternalField obj 1 (VExternal managedObjectID) wd
                                   else wb)
                         in SetHiddenValue obj ''ManagedObjectID'' (VInt32 managedObjectID) wc))
          in (Inr (), SetManagedObjectID handleProxy managedObjectID w1))"

subsection \<open>Object and property operations\<close>

text \<open>
  Every operation begins with the same two statements:
  \<^verbatim>\<open>auto handle = proxy->Handle(); if (handle.IsEmpty() || !handle->IsObject()) throw
  exception("The handle does not represent an object.");\<close>
\<close>

definition require_object :: "href \<Rightarrow> world \<Rightarrow> (error + addr) \<times> world" where
  "require_object proxy w =
     (case handles w proxy of
        None \<Rightarrow> (Inl (Fault DanglingPointer), w)
      | Some h \<Rightarrow>
          (case h_Handle h of
             None \<Rightarrow> (Inl (Exception ''The handle does not represent an object.''), w)
           | Some handle \<Rightarrow>
               let w1 = emit (V8Call ''Value::IsObject'') w
               in (case As_Object handle of
                     None \<Rightarrow> (Inl (Exception ''The handle does not represent an object.''), w1)
                   | Some obj \<Rightarrow> (Inr obj, w1))))"

text \<open>\<^verbatim>\<open>value != nullptr ? value->Handle() : v8::Undefined()\<close>\<close>

definition value_Handle :: "href option \<Rightarrow> world \<Rightarrow> error + js_value option" where
  "value_Handle val w =
     (case val of
        None \<Rightarrow> Inr (Some VUndefined)
      | Some q \<Rightarrow> (case handles w q of None \<Rightarrow> Inl (Fault DanglingPointer) | Some h \<Rightarrow> Inr (h_Handle h)))"

definition set_property :: "env \<Rightarrow> href \<Rightarrow> key \<Rightarrow> href option \<Rightarrow> int \<Rightarrow> world \<Rightarrow> (error + bool) \<times> world" where
  "set_property E proxy k val attribs w =
     (case require_object proxy w of
        (Inl e, w1) \<Rightarrow> (Inl e, w1)
      | (Inr obj, w1) \<Rightarrow>
          (case value_Handle val w1 of
             Inl e \<Rightarrow> (Inl e, w1)
           | Inr None \<Rightarrow> (Inl (Fault EmptyHandleDeref), w1)
           | Inr (Some v) \<Rightarrow>
               let (b, w2) = Object_Set E obj k v attribs (emit (V8Call ''Object::Set'') w1)
               in (Inr b, w2)))"

definition SetObjectPropertyByName ::
    "env \<Rightarrow> href \<Rightarrow> string \<Rightarrow> href option \<Rightarrow> int \<Rightarrow> world \<Rightarrow> (error + bool) \<times> world" where
  "SetObjectPropertyByName E proxy name val attribs w = set_property E proxy (Named name) val attribs w"

definition SetObjectPropertyByIndex ::
    "env \<Rightarrow> href \<Rightarrow> nat \<Rightarrow> href option \<Rightarrow> world \<Rightarrow> (error + bool) \<times> world" where
  "SetObjectPropertyByIndex E proxy index val w = set_property E proxy (Indexed index) val 0 w"

definition get_property :: "env \<Rightarrow> href \<Rightarrow> key \<Rightarrow> world \<Rightarrow> (error + href) \<times> world" where
  "get_property E proxy k w =
     (case require_object proxy w of
        (Inl e, w1) \<Rightarrow> (Inl e, w1)
      | (Inr obj, w1) \<Rightarrow>
          let (r, w2) = Object_Get E obj k (emit (V8Call ''Object::Get'') w1);
              (q, w3) = V8EngineProxy_GetHandleProxy E r w2
          in (Inr q, w3))"

definition GetObjectPropertyByName :: "env \<Rightarrow> href \<Rightarrow> string \<Rightarrow> world \<Rightarrow> (error + href) \<times> world" where
  "GetObjectPropertyByName E proxy name w = get_property E proxy (Named name) w"

definition GetObjectPropertyByIndex :: "env \<Rightarrow> href \<Rightarrow> nat \<Rightarrow> world \<Rightarrow> (error + href) \<times> world" where
  "GetObjectPropertyByIndex E proxy index w = get_property E proxy (Indexed index) w"

definition delete_property :: "env \<Rightarrow> href \<Rightarrow> key \<Rightarrow> world \<Rightarrow> (error + bool) \<times> world" where
  "delete_property E proxy k w =
     (case require_object proxy w of
        (Inl e, w1) \<Rightarrow> (Inl e, w1)
      | (Inr obj, w1) \<Rightarrow>
          let (b, w2) = Object_Delete E obj k (emit (V8Call ''Object::Delete'') w1)
          in (Inr b, w2))"

definition DeleteObjectPropertyByName :: "env \<Rightarrow> href \<Rightarrow> string \<Rightarrow> world \<Rightarrow> (error + bool) \<times> world" where
  "DeleteObjectPropertyByName E proxy name w = delete_property E proxy (Named name) w"

definition DeleteObjectPropertyByIndex :: "env \<Rightarrow> href \<Rightarrow> nat \<Rightarrow> world \<Rightarrow> (error + bool) \<times> world" where
  "DeleteObjectPropertyByIndex E proxy index w = delete_property E proxy (Indexed index) w"

definition GetPropertyNames :: "env \<Rightarrow> href \<Rightarrow> world \<Rightarrow> (error + href) \<times> world" where
  "GetPropertyNames E proxy w =
     (case require_object proxy w of
        (Inl e, w1) \<Rightarrow> (Inl e, w1)
      | (Inr obj, w1) \<Rightarrow>
          let (names, w2) = Object_GetPropertyNames E obj (emit (V8Call ''Object::GetPropertyNames'') w1);
              (q, w3) = V8EngineProxy_GetHandleProxy E names w2
          in (Inr q, w3))"

definition GetOwnPropertyNames :: "env \<Rightarrow> href \<Rightarrow> world \<Rightarrow> (error + href) \<times> world" where
  "GetOwnPropertyNames E proxy w =
     (case require_object proxy w of
        (Inl e, w1) \<Rightarrow> (Inl e, w1)
      | (Inr obj, w1) \<Rightarrow>
          let (names, w2) = Object_GetOwnPropertyNames E obj (emit (V8Call ''Object::GetOwnPropertyNames'') w1);
              (q, w3) = V8EngineProxy_GetHandleProxy E names w2
          in (Inr q, w3))"

definition GetPropertyAttributes :: "env \<Rightarrow> href \<Rightarrow> string \<Rightarrow> world \<Rightarrow> (error + int) \<times> world" where
  "GetPropertyAttributes E proxy name w =
     (case require_object proxy w of
        (Inl e, w1) \<Rightarrow> (Inl e, w1)
      | (Inr obj, w1) \<Rightarrow>
          let (a, w2) = Object_GetPropertyAttributes E obj name
                          (emit (V8Call ''Object::GetPropertyAttributes'') w1)
          in (Inr a, w2))"

definition GetObjectPrototype :: "env \<Rightarrow> href \<Rightarrow> world \<Rightarrow> (error + href) \<times> world" where
  "GetObjectPrototype E handleProxy w =
     (case require_object handleProxy w of
        (Inl e, w1) \<Rightarrow> (Inl e, w1)
      | (Inr obj, w1) \<Rightarrow>
          let (proto, w2) = Object_GetPrototype E obj (emit (V8Call ''Object::GetPrototype'') w1);
              (q, w3) = V8EngineProxy_GetHandleProxy E proto w2
          in (Inr q, w3))"

definition GetArrayLength :: "env \<Rightarrow> href \<Rightarrow> world \<Rightarrow> (error + int) \<times> world" where
  "GetArrayLength E proxy w =
     (case handles w proxy of
        None \<Rightarrow> (Inl (Fault DanglingPointer), w)
      | Some h \<Rightarrow>
          (case h_Handle h of
             None \<Rightarrow> (Inl (Exception ''The handle does not represent an array object.''), w)
           | Some handle \<Rightarrow>
               let w1 = emit (V8Call ''Value::IsArray'') w
               in if \<not> IsArray handle then
                    (Inl (Exception ''The handle does not represent an array object.''), w1)
                  else
                    (case As_Object handle of
                       None \<Rightarrow> (Inl (Fault BadCast), w1)
                     | Some arr \<Rightarrow>
                         let w2 = emit (V8Call ''Array::Length'') w1
                         in (Inr (Array_Length E arr w2), w2))))"

subsection \<open>Handle management\<close>

text \<open>Each export does nothing on a null pointer.\<close>

definition unit_result :: "(error + 'a) \<times> world \<Rightarrow> (error + unit) \<times> world" where
  "unit_result r = (case r of (Inl e, w) \<Rightarrow> (Inl e, w) | (Inr x, w) \<Rightarrow> (Inr (), w))"

definition MakeWeakHandle :: "href option \<Rightarrow> world \<Rightarrow> (error + unit) \<times> world" where
  "MakeWeakHandle handleProxy w =
     (case handleProxy of None \<Rightarrow> (Inr (), w) | Some p \<Rightarrow> MakeWeak p w)"

definition MakeStrongHandle :: "href option \<Rightarrow> world \<Rightarrow> (error + unit) \<times> world" where
  "MakeStrongHandle handleProxy w =
     (case handleProxy of None \<Rightarrow> (Inr (), w) | Some p \<Rightarrow> MakeStrong p w)"

definition DisposeHandleProxy :: "nat \<Rightarrow> env \<Rightarrow> href option \<Rightarrow> world \<Rightarrow> (error + unit) \<times> world" where
  "DisposeHandleProxy n E handleProxy w =
     (case handleProxy of None \<Rightarrow> (Inr (), w) | Some p \<Rightarrow> unit_result (Dispose n E p w))"

definition UpdateHandleValue :: "env \<Rightarrow> href option \<Rightarrow> world \<Rightarrow> (error + unit) \<times> world" where
  "UpdateHandleValue E handleProxy w =
     (case handleProxy of None \<Rightarrow> (Inr (), w) | Some p \<Rightarrow> UpdateValue E p w)"

definition GetHandleManagedObjectID :: "href option \<Rightarrow> world \<Rightarrow> (error + int) \<times> world" where
  "GetHandleManagedObjectID handleProxy w =
     (case handleProxy of None \<Rightarrow> (Inr (-1), w) | Some p \<Rightarrow> GetManagedObjectID p w)"

section \<open>Observations and test doubles\<close>

text \<open>The events an operation adds to the log, from the state before and the state after.\<close>

definition new_events :: "world \<Rightarrow> world \<Rightarrow> event list" where
  "new_events w w' = drop (length (trace w)) (trace w')"

text \<open>
  A log keeps the lock discipline of engine \<open>e\<close> when every write to a member of a handle
  proxy happens while \<open>e\<close>'s mutex is held; \<open>d\<close> is the number of times it is held at the
  start of the log (the mutex is recursive).
\<close>

fun stores_guarded :: "eref \<Rightarrow> nat \<Rightarrow> event list \<Rightarrow> bool" where
  "stores_guarded e d [] = True"
| "stores_guarded e d (MutexLock e' # evs) = stores_guarded e (if e' = e then Suc d else d) evs"
| "stores_guarded e d (MutexUnlock e' # evs) = stores_guarded e (if e' = e then d - 1 else d) evs"
| "stores_guarded e d (Store p fld # evs) = (0 < d \<and> stores_guarded e d evs)"
| "stores_guarded e d (V8Call c # evs) = stores_guarded e d evs"
| "stores_guarded e d (HostCall c # evs) = stores_guarded e d evs"

definition is_V8Call :: "event \<Rightarrow> bool" where
  "is_V8Call ev = (case ev of V8Call c \<Rightarrow> True | _ \<Rightarrow> False)"

definition is_Mutex :: "event \<Rightarrow> bool" where
  "is_Mutex ev = (case ev of MutexLock e \<Rightarrow> True | MutexUnlock e \<Rightarrow> True | _ \<Rightarrow> False)"

text \<open>
  An operation fails with the exception \<open>msg\<close> and leaves everything but the log of
  engine calls as it was.
\<close>

definition fails_unchanged :: "string \<Rightarrow> world \<Rightarrow> (error + 'a) \<times> world \<Rightarrow> bool" where
  "fails_unchanged msg w r = (fst r = Inl (Exception msg) \<and> (snd r)\<lparr>trace := trace w\<rparr> = w)"

text \<open>The handle refers to \<open>v\<close> and its tag is the one \<^verbatim>\<open>SetHandle\<close> gives to \<open>v\<close>.\<close>

definition tag_classifies :: "HandleProxy \<Rightarrow> js_value \<Rightarrow> bool" where
  "tag_classifies h v = (h_Handle h = Some v \<and> h_Type h = SetHandle_Type v)"

text \<open>
  A small configuration for concrete runs.  Engine 0 lives at address 500.  Object 0 has two
  internal fields, holding the template proxy at address 100 and the identifier \<open>ident\<close>,
  and the hidden marker \<open>ident\<close>; every other object has no internal field and no hidden
  value.  Handle 1 refers to object 0, handle 2 to the string \<open>X\<close>, handle 3 is tagged as
  an execution error and refers to the string \<open>boom\<close>, handle 4 refers to object 1 and is
  being disposed by the host.  The named getter answers \<open>foo\<close> with handle 2 and nothing
  else.  The function template at address 200 has a call-back that returns nothing when
  called without arguments, handle 3 when called as a constructor and handle 2 otherwise.
\<close>

definition test_value_box :: HandleValue where
  "test_value_box = \<lparr>v_union = V8Integer 0, V8String = None\<rparr>"

definition test_handle :: "JSValueType \<Rightarrow> js_value option \<Rightarrow> HandleProxy" where
  "test_handle ty hv =
     \<lparr>h_ID = 1, h_ManagedObjectID = -1, h_Type = ty, h_Value = test_value_box,
      h_ManagedReferenceCount = 0, h_Disposed = 0, h_EngineID = 0, h_EngineProxy = 500,
      h_Handle = hv\<rparr>"

definition test_object :: "int \<Rightarrow> js_object" where
  "test_object ident =
     \<lparr>internal_fields = [SlotPointer (Some 100), SlotValue (VExternal ident)],
      hidden_values = (\<lambda>k. if k = ''ManagedObjectID'' then Some (VInt32 ident) else None)\<rparr>"

definition bare_object :: js_object where
  "bare_object = \<lparr>internal_fields = [], hidden_values = (\<lambda>k. None)\<rparr>"

definition test_getter :: ManagedNamedPropertyGetter where
  "test_getter name info = (if name = ''foo'' then Some 2 else None)"

definition test_callback :: ManagedJSFunctionCallback where
  "test_callback managedObjectID isConstructCall this xargs argCount =
     (if argCount = 0 then None else if isConstructCall then Some 3 else Some 2)"

definition test_world :: "int \<Rightarrow> world" where
  "test_world ident =
     \<lparr>DisposedEngines = (\<lambda>e. False),
      engines = (\<lambda>e. \<lparr>e_EngineID = 0, e_ManagedV8GarbageCollectionRequestCallback = None\<rparr>),
      handles = (\<lambda>p. if p = 1 then Some (test_handle JSV_Object (Some (VObject PlainObject 0)))
                      else if p = 2 then Some (test_handle JSV_String (Some (VString ''X'')))
                      else if p = 3 then Some (test_handle JSV_ExecutionError (Some (VString ''boom'')))
                      else if p = 4 then Some ((test_handle JSV_Object (Some (VObject PlainObject 1)))
                                                 \<lparr>h_Disposed := 1\<rparr>)
                      else None),
      templates = (\<lambda>t. if t = 200
                      then FunctionTemplate
                             \<lparr>ft_EngineProxy = 500, ft_EngineID = 0,
                              ft_ManagedCallback = Some test_callback\<rparr>
                      else ObjectTemplate
                             \<lparr>ot_EngineProxy = 500, ot_EngineID = 0,
                              NamedPropertyGetter = Some test_getter\<rparr>),
      heap = (\<lambda>a. if a = 0 then test_object ident else bare_object),
      weak_nodes = {},
      freed_engines = {},
      trace = []\<rparr>"

text \<open>
  The same after handle 1 was resolved to 7 and made weak, with a collector call-back
  registered that always gives the answer \<open>answer\<close>.
\<close>

definition test_gc_world :: "bool \<Rightarrow> world" where
  "test_gc_world answer =
     (test_world 7)
       \<lparr>engines := (\<lambda>e. \<lparr>e_EngineID = 0,
                          e_ManagedV8GarbageCollectionRequestCallback = Some (\<lambda>p h. answer)\<rparr>),
        handles := (\<lambda>p. if p = 1
                        then Some ((test_handle JSV_Object (Some (VObject PlainObject 0)))
                                     \<lparr>h_ManagedObjectID := 7\<rparr>)
                        else None),
        weak_nodes := {1}\<rparr>"

text \<open>
  The same while engine 0 is being torn down (marked disposed, its proxy still allocated),
  and after it was destroyed.
\<close>

definition test_tearing_world :: world where
  "test_tearing_world = begin_teardown 500 (test_world 7)"

definition test_torn_world :: world where
  "test_torn_world = DestroyV8EngineProxy 500 (test_world 7)"

definition test_env :: env where
  "test_env =
     \<lparr>HandleValue_Dispose = (\<lambda>b. b\<lparr>V8String := None\<rparr>),
      V8EngineProxy_DisposeHandleProxy = (\<lambda>p w. w),
      V8EngineProxy_GetHandleProxy = (\<lambda>v w. (1, w)),
      Value_BooleanValue = IsTrue,
      Value_Int32Value = (\<lambda>v. case v of VInt32 i \<Rightarrow> i | _ \<Rightarrow> 0),
      Value_NumberValue = (\<lambda>v. 0),
      Value_ToString = (\<lambda>v. case v of VString s \<Rightarrow> s | _ \<Rightarrow> ''[object Object]''),
      Object_Get = (\<lambda>obj k w. (None, w)),
      Object_Set = (\<lambda>obj k v a w. (True, w)),
      Object_Delete = (\<lambda>obj k w. (True, w)),
      Object_GetPropertyAttributes = (\<lambda>obj k w. (0, w)),
      Object_GetPropertyNames = (\<lambda>obj w. (None, w)),
      Object_GetOwnPropertyNames = (\<lambda>obj w. (None, w)),
      Object_GetPrototype = (\<lambda>obj w. (None, w)),
      Array_Length = (\<lambda>obj w. 0)\<rparr>"

definition test_info :: AccessorInfo where
  "test_info = \<lparr>ai_Holder = 0, ai_This = VObject PlainObject 0, ai_Data = VUndefined\<rparr>"

definition test_args :: "bool \<Rightarrow> js_value list \<Rightarrow> Arguments" where
  "test_args construct vs =
     \<lparr>args_Data = VExternal 200, args_Holder = VObject PlainObject 0,
      args_IsConstructCall = construct, args_values = vs\<rparr>"

section \<open>Unfolding sets\<close>

lemmas test_defs = test_world_def test_gc_world_def test_torn_world_def test_tearing_world_def
  begin_teardown_def DestroyV8EngineProxy_def test_handle_def
  test_object_def bare_object_def test_value_box_def test_getter_def test_callback_def
  test_env_def test_info_def test_args_def

lemmas step_defs = Let_def emit_def update_handle_def new_events_def InternalFieldCount_def
  GetInternalField_def GetHiddenValue_def int32_cast_def IsDisposed_def

section \<open>Host-object identity resolution\<close>

lemma GetManagedObjectID_cached:
  "handles w p = Some h \<Longrightarrow> h_ManagedObjectID h \<noteq> -1 \<Longrightarrow>
   GetManagedObjectID p w = (Inr (h_ManagedObjectID h), w)"
  by (auto simp: GetManagedObjectID_def)

lemma GetManagedObjectID_result_cached:
  assumes "GetManagedObjectID p w = (Inr r, w')"
  shows "\<exists>h h'. handles w p = Some h \<and> handles w' p = Some h' \<and> h_ManagedObjectID h' = r
     \<and> h_Handle h' = h_Handle h \<and> heap w' = heap w \<and> (h_ManagedObjectID h \<noteq> -1 \<longrightarrow> w' = w)"
  using assms
  by (auto simp: GetManagedObjectID_def Let_def emit_def update_handle_def
      split: option.splits if_splits slot.splits js_value.splits)

lemma GetManagedObjectID_fst_cong:
  assumes "handles w p = Some h" "handles w1 p = Some h1" "h_Handle h1 = h_Handle h"
    "h_ManagedObjectID h = -1" "h_ManagedObjectID h1 = -1" "heap w1 = heap w"
  shows "fst (GetManagedObjectID p w1) = fst (GetManagedObjectID p w)"
  using assms
  by (auto simp: GetManagedObjectID_def Let_def emit_def update_handle_def
      split: option.splits if_splits slot.splits js_value.splits)

text \<open>
  On an unresolved handle whose engine reference is empty (one cleared by the revival
  call-back), \<^verbatim>\<open>_Handle->IsObject()\<close> dereferences the empty reference; -2 has been
  written to the cache before that.
\<close>

lemma GetManagedObjectID_empty_handle:
  assumes "handles w p = Some h" and "h_ManagedObjectID h = -1" and "h_Handle h = None"
  shows "fst (GetManagedObjectID p w) = Inl (Fault EmptyHandleDeref)
       \<and> handles (snd (GetManagedObjectID p w)) p = Some (h\<lparr>h_ManagedObjectID := -2\<rparr>)"
  using assms by (simp add: GetManagedObjectID_def Let_def emit_def update_handle_def)

text \<open>
  C3.  A handle whose identifier is unresolved (-1) and whose engine reference holds a
  value \<open>v\<close> resolves as follows, and the result is what the handle caches.  If \<open>v\<close> is an
  object with at least two internal fields, field 1 is read (and the hidden marker is
  not): the identifier is the payload of the field if the field is an \<^verbatim>\<open>External\<close>, and -2
  otherwise.  If \<open>v\<close> is an object with fewer internal fields, the hidden value
  \<^verbatim>\<open>ManagedObjectID\<close> is read: the identifier is its integer if it holds one, and -2
  otherwise.  If \<open>v\<close> is not an object the identifier is -2.
\<close>

theorem GetManagedObjectID_resolution:
  assumes "handles w p = Some h" and "h_ManagedObjectID h = -1" and "h_Handle h = Some v"
  shows "\<exists>r w'. GetManagedObjectID p w = (Inr r, w')
      \<and> handles w' p = Some (h\<lparr>h_ManagedObjectID := r\<rparr>)
      \<and> (\<forall>c obj. v = VObject c obj \<longrightarrow> 2 \<le> InternalFieldCount (heap w obj) \<longrightarrow>
            V8Call ''Object::GetInternalField'' \<in> set (new_events w w')
          \<and> V8Call ''Object::GetHiddenValue'' \<notin> set (new_events w w')
          \<and> (\<forall>x. GetInternalField (heap w obj) 1 = SlotValue (VExternal x) \<longrightarrow> r = int32_cast x)
          \<and> ((\<forall>x. GetInternalField (heap w obj) 1 \<noteq> SlotValue (VExternal x)) \<longrightarrow> r = -2))
      \<and> (\<forall>c obj. v = VObject c obj \<longrightarrow> InternalFieldCount (heap w obj) < 2 \<longrightarrow>
            V8Call ''Object::GetHiddenValue'' \<in> set (new_events w w')
          \<and> V8Call ''Object::GetInternalField'' \<notin> set (new_events w w')
          \<and> (\<forall>i. GetHiddenValue (heap w obj) ''ManagedObjectID'' = Some (VInt32 i) \<longrightarrow> r = i)
          \<and> ((\<forall>i. GetHiddenValue (heap w obj) ''ManagedObjectID'' \<noteq> Some (VInt32 i)) \<longrightarrow> r = -2))
      \<and> (\<not> IsObject v \<longrightarrow> r = -2)"
  using assms
  by (cases v)
     (auto simp: GetManagedObjectID_def Let_def emit_def update_handle_def new_events_def
        split: option.splits if_splits slot.splits js_value.splits)

theorem GetManagedObjectID_resolution_witness:
  "handles (test_world 7) 1 = Some (test_handle JSV_Object (Some (VObject PlainObject 0)))
   \<and> h_ManagedObjectID (test_handle JSV_Object (Some (VObject PlainObject 0))) = -1
   \<and> 2 \<le> InternalFieldCount (heap (test_world 7) 0)
   \<and> GetInternalField (heap (test_world 7) 0) 1 = SlotValue (VExternal 7)
   \<and> fst (GetManagedObjectID 1 (test_world 7)) = Inr 7
   \<and> map_option h_ManagedObjectID (handles (snd (GetManagedObjectID 1 (test_world 7))) 1) = Some 7"
  using GetManagedObjectID_resolution
          [of "test_world 7" 1 "test_handle JSV_Object (Some (VObject PlainObject 0))"
              "VObject PlainObject 0"]
  by (simp add: GetManagedObjectID_def test_world_def test_handle_def test_object_def Let_def
      emit_def update_handle_def InternalFieldCount_def GetInternalField_def int32_cast_def)

text \<open>
  C4, as amended.  Two calls in a row return the same value.  When the first call returns
  anything but -1, the second call returns the cached value and leaves the whole state as
  it is, the log of engine calls included: it inspects nothing.  (When the identifier
  stored on the object is itself -1, the handle stays unresolved and the second call
  scans again: see the counterexample.)
\<close>

theorem GetManagedObjectID_twice:
  assumes "GetManagedObjectID p w = (Inr r, w1)"
  shows "fst (GetManagedObjectID p w1) = Inr r
       \<and> (r \<noteq> -1 \<longrightarrow> GetManagedObjectID p w1 = (Inr r, w1))"
proof -
  from GetManagedObjectID_result_cached [OF assms]
  obtain h h1 where h: "handles w p = Some h" and h1: "handles w1 p = Some h1"
    and r: "h_ManagedObjectID h1 = r" and hh: "h_Handle h1 = h_Handle h"
    and hp: "heap w1 = heap w" and same: "h_ManagedObjectID h \<noteq> -1 \<longrightarrow> w1 = w"
    by blast
  have cached: "r \<noteq> -1 \<longrightarrow> GetManagedObjectID p w1 = (Inr r, w1)"
    using GetManagedObjectID_cached [OF h1] r by simp
  have "fst (GetManagedObjectID p w1) = Inr r"
  proof (cases "r = -1")
    case False
    with cached show ?thesis by simp
  next
    case True
    show ?thesis
    proof (cases "h_ManagedObjectID h = -1")
      case True
      have "fst (GetManagedObjectID p w1) = fst (GetManagedObjectID p w)"
        using GetManagedObjectID_fst_cong [OF h h1 hh True _ hp] r \<open>r = -1\<close> by simp
      with assms show ?thesis by simp
    next
      case False
      with same have "w1 = w" by simp
      with assms show ?thesis by simp
    qed
  qed
  with cached show ?thesis by simp
qed

theorem GetManagedObjectID_twice_witness:
  "GetManagedObjectID 1 (test_world 7) = (Inr 7, snd (GetManagedObjectID 1 (test_world 7)))
   \<and> GetManagedObjectID 1 (snd (GetManagedObjectID 1 (test_world 7)))
       = (Inr 7, snd (GetManagedObjectID 1 (test_world 7)))"
proof -
  have h: "GetManagedObjectID 1 (test_world 7) = (Inr 7, snd (GetManagedObjectID 1 (test_world 7)))"
    by (simp add: GetManagedObjectID_def test_world_def test_handle_def test_object_def Let_def
        emit_def update_handle_def InternalFieldCount_def GetInternalField_def int32_cast_def)
  from GetManagedObjectID_twice [OF h] h show ?thesis by simp
qed

text \<open>
  The claim C4 as it was stated fails on an object that stores the identifier -1 (what
  \<^verbatim>\<open>ConnectObject\<close> writes when it is called with -1): the first call returns -1, which
  is also the mark of an unresolved handle, and the second call reads the internal field
  again.
\<close>

theorem GetManagedObjectID_rescan_counterexample:
  "fst (GetManagedObjectID 1 (test_world (-1))) = Inr (-1)
   \<and> GetManagedObjectID 1 (snd (GetManagedObjectID 1 (test_world (-1))))
       \<noteq> (Inr (-1), snd (GetManagedObjectID 1 (test_world (-1))))
   \<and> V8Call ''Object::GetInternalField''
       \<in> set (new_events (snd (GetManagedObjectID 1 (test_world (-1))))
                (snd (GetManagedObjectID 1 (snd (GetManagedObjectID 1 (test_world (-1)))))))"
  by (simp add: GetManagedObjectID_def test_world_def test_handle_def test_object_def Let_def
      emit_def update_handle_def InternalFieldCount_def GetInternalField_def int32_cast_def
      new_events_def)


section \<open>The revival call-back\<close>

text \<open>
  C1.  The revival call-back always returns.  It consults the registered collector
  call-back exactly when one is registered and the cached identifier of the handle is at
  least 0; a handle with a negative identifier loses its engine reference whatever is
  registered.  When the call-back is consulted and answers "do not dispose", the handle
  proxy, its engine reference and the weak marks are as before and no engine call is made;
  in every other case the engine reference is released and cleared.
\<close>

theorem RevivableCallback_disposal:
  assumes "handles w p = Some h"
  shows "\<exists>w'. priv_RevivableCallback e p w = (Inr (), w')
    \<and> (HostCall ''ManagedV8GarbageCollectionRequestCallback'' \<in> set (new_events w w')
         \<longleftrightarrow> e_ManagedV8GarbageCollectionRequestCallback (engines w e) \<noteq> None
             \<and> 0 \<le> h_ManagedObjectID h)
    \<and> (h_ManagedObjectID h < 0 \<longrightarrow> handles w' p = Some (h\<lparr>h_Handle := None\<rparr>))
    \<and> (\<forall>cb. e_ManagedV8GarbageCollectionRequestCallback (engines w e) = Some cb
            \<and> 0 \<le> h_ManagedObjectID h \<and> \<not> cb p h \<longrightarrow>
          handles w' p = Some h \<and> weak_nodes w' = weak_nodes w
          \<and> (\<forall>ev \<in> set (new_events w w'). \<not> is_V8Call ev))
    \<and> (\<not> (\<exists>cb. e_ManagedV8GarbageCollectionRequestCallback (engines w e) = Some cb
            \<and> 0 \<le> h_ManagedObjectID h \<and> \<not> cb p h) \<longrightarrow>
          handles w' p = Some (h\<lparr>h_Handle := None\<rparr>)
          \<and> (h_Handle h \<noteq> None \<longrightarrow> V8Call ''Persistent::Dispose'' \<in> set (new_events w w')))"
  using assms
  by (auto simp: priv_RevivableCallback_def release_Handle_def Let_def emit_def update_handle_def
        new_events_def is_V8Call_def split: option.splits if_splits)

theorem RevivableCallback_disposal_witness:
  "map_option h_ManagedObjectID (handles (test_gc_world False) 1) = Some 7
   \<and> map_option h_Handle (handles (test_gc_world False) 1) = Some (Some (VObject PlainObject 0))
   \<and> map_option h_Handle (handles (snd (priv_RevivableCallback 500 1 (test_gc_world False))) 1)
       = Some (Some (VObject PlainObject 0))
   \<and> HostCall ''ManagedV8GarbageCollectionRequestCallback''
       \<in> set (new_events (test_gc_world False) (snd (priv_RevivableCallback 500 1 (test_gc_world False))))
   \<and> map_option h_Handle (handles (snd (priv_RevivableCallback 500 1 (test_gc_world True))) 1)
       = Some None
   \<and> map_option h_ManagedObjectID (handles (test_world 7) 2) = Some (-1)
   \<and> map_option h_Handle (handles (snd (priv_RevivableCallback 500 2 (test_world 7))) 2) = Some None"
  using RevivableCallback_disposal
          [of "test_gc_world False" 1
              "(test_handle JSV_Object (Some (VObject PlainObject 0)))\<lparr>h_ManagedObjectID := 7\<rparr>" 500]
  by (simp add: priv_RevivableCallback_def release_Handle_def test_defs step_defs)

section \<open>Connecting an object to a host identity\<close>

text \<open>
  C10.  \<^verbatim>\<open>ConnectObject\<close> always records the identifier in the handle proxy.  It leaves
  the engine heap alone when the engine reference is empty or is not an object.  On an
  object it writes the hidden marker; it writes internal field 1 only when the object has
  at least two internal fields, and internal field 0 only when, in addition, the template
  pointer is not null.
\<close>

theorem ConnectObject_records_identifier:
  assumes "handles w p = Some h"
  shows "\<exists>w'. ConnectObject p ident tp w = (Inr (), w')
     \<and> handles w' p = Some (h\<lparr>h_ManagedObjectID := ident\<rparr>)
     \<and> (h_Handle h = None \<longrightarrow> heap w' = heap w)
     \<and> (\<forall>v. h_Handle h = Some v \<longrightarrow> \<not> IsObject v \<longrightarrow> heap w' = heap w)
     \<and> (\<forall>c obj. h_Handle h = Some (VObject c obj) \<longrightarrow>
          (\<forall>a. a \<noteq> obj \<longrightarrow> heap w' a = heap w a)
        \<and> hidden_values (heap w' obj)
            = (hidden_values (heap w obj))(''ManagedObjectID'' := Some (VInt32 ident))
        \<and> (InternalFieldCount (heap w obj) < 2 \<longrightarrow>
              internal_fields (heap w' obj) = internal_fields (heap w obj))
        \<and> (2 \<le> InternalFieldCount (heap w obj) \<longrightarrow>
              internal_fields (heap w' obj)
                = (if tp \<noteq> None then (internal_fields (heap w obj))[0 := SlotPointer tp]
                   else internal_fields (heap w obj))[1 := SlotValue (VExternal ident)]))"
  using assms
  apply (cases "h_Handle h")
   apply (simp add: ConnectObject_def SetManagedObjectID_def update_handle_def emit_def)
  subgoal for v
    by (cases v)
       (auto simp: ConnectObject_def SetManagedObjectID_def update_handle_def emit_def Let_def
          SetHiddenValue_def SetInternalField_def SetAlignedPointerInInternalField_def
          InternalFieldCount_def)
  done

theorem ConnectObject_records_identifier_witness:
  "map_option h_Handle (handles (test_world 7) 1) = Some (Some (VObject PlainObject 0))
   \<and> 2 \<le> InternalFieldCount (heap (test_world 7) 0)
   \<and> map_option h_ManagedObjectID (handles (snd (ConnectObject 1 9 (Some 300) (test_world 7))) 1) = Some 9
   \<and> internal_fields (heap (snd (ConnectObject 1 9 (Some 300) (test_world 7))) 0)
       = [SlotPointer (Some 300), SlotValue (VExternal 9)]
   \<and> internal_fields (heap (snd (ConnectObject 1 9 None (test_world 7))) 0)
       = [SlotPointer (Some 100), SlotValue (VExternal 9)]
   \<and> hidden_values (heap (snd (ConnectObject 1 9 None (test_world 7))) 0) ''ManagedObjectID''
       = Some (VInt32 9)
   \<and> map_option h_Handle (handles (test_world 7) 2) = Some (Some (VString ''X''))
   \<and> map_option h_ManagedObjectID (handles (snd (ConnectObject 2 9 (Some 300) (test_world 7))) 2) = Some 9
   \<and> heap (snd (ConnectObject 2 9 (Some 300) (test_world 7))) = heap (test_world 7)
   \<and> map_option h_Handle (handles (test_world 7) 4) = Some (Some (VObject PlainObject 1))
   \<and> InternalFieldCount (heap (test_world 7) 1) < 2
   \<and> internal_fields (heap (snd (ConnectObject 4 9 (Some 300) (test_world 7))) 1) = []
   \<and> hidden_values (heap (snd (ConnectObject 4 9 (Some 300) (test_world 7))) 1) ''ManagedObjectID''
       = Some (VInt32 9)"
  using ConnectObject_records_identifier
          [of "test_world 7" 1 "test_handle JSV_Object (Some (VObject PlainObject 0))" 9 "Some 300"]
  by (simp add: ConnectObject_def SetManagedObjectID_def SetHiddenValue_def SetInternalField_def
      SetAlignedPointerInInternalField_def test_defs step_defs)


section \<open>Property interception\<close>

text \<open>
  C5.  The named getter returns the empty handle ("not handled") when the holder has fewer
  than two internal fields, when field 0 is undefined or a null pointer, and when field 0
  points to a proxy that is not an object-template proxy; it does so too when the
  registered getter returns null.  It never throws, and it changes nothing but the log of
  engine calls.  (The store of template proxies is total: whether a pointer is still
  live cannot be tested by the code and is not represented.)
\<close>

theorem GetProperty_declines:
  "(InternalFieldCount (heap w (ai_Holder info)) < 2
      \<or> slot_IsUndefined (GetInternalField (heap w (ai_Holder info)) 0)
      \<or> GetInternalField (heap w (ai_Holder info)) 0 = SlotPointer None
      \<or> (\<exists>proxy. GetInternalField (heap w (ai_Holder info)) 0 = SlotPointer (Some proxy)
            \<and> ProxyBase_Type (templates w proxy) \<noteq> ObjectTemplateProxyClass)
      \<longrightarrow> fst (ObjectTemplateProxy_GetProperty hName info w) = Inr None)
   \<and> (\<forall>proxy ot getter x.
         2 \<le> InternalFieldCount (heap w (ai_Holder info))
       \<and> GetInternalField (heap w (ai_Holder info)) 0 = SlotPointer (Some proxy)
       \<and> templates w proxy = ObjectTemplate ot
       \<and> NamedPropertyGetter ot = Some getter
       \<and> GetInternalField (heap w (ai_Holder info)) 1 = SlotValue (VExternal x)
       \<and> getter hName \<lparr>ma_ObjectProxy = proxy, ma_ObjectID = int32_cast x,
                        ma_Data = ai_Data info, ma_This = ai_This info\<rparr> = None
       \<longrightarrow> fst (ObjectTemplateProxy_GetProperty hName info w) = Inr None)
   \<and> (\<forall>msg. fst (ObjectTemplateProxy_GetProperty hName info w) \<noteq> Inl (Exception msg))
   \<and> (snd (ObjectTemplateProxy_GetProperty hName info w))\<lparr>trace := trace w\<rparr> = w"
  apply (intro conjI impI allI)
  subgoal
    apply (cases "GetInternalField (heap w (ai_Holder info)) 0")
    subgoal for v
      by (auto simp: ObjectTemplateProxy_GetProperty_def Let_def emit_def)
    subgoal for q
      by (cases q)
         (auto simp: ObjectTemplateProxy_GetProperty_def Let_def emit_def split: ProxyObject.splits)
    done
  subgoal
    by (auto simp: ObjectTemplateProxy_GetProperty_def Let_def emit_def)
  subgoal
    by (auto simp: ObjectTemplateProxy_GetProperty_def Let_def emit_def
        split: slot.splits option.splits ProxyObject.splits js_value.splits)
  subgoal
    by (auto simp: ObjectTemplateProxy_GetProperty_def Let_def emit_def
        split: slot.splits option.splits ProxyObject.splits js_value.splits)
  done

theorem GetProperty_declines_witness:
  "InternalFieldCount (heap (test_world 7) 1) < 2
   \<and> fst (ObjectTemplateProxy_GetProperty ''foo'' (test_info\<lparr>ai_Holder := 1\<rparr>) (test_world 7)) = Inr None
   \<and> 2 \<le> InternalFieldCount (heap (test_world 7) 0)
   \<and> GetInternalField (heap (test_world 7) 0) 0 = SlotPointer (Some 100)
   \<and> ProxyBase_Type (templates (test_world 7) 100) = ObjectTemplateProxyClass
   \<and> GetInternalField (heap (test_world 7) 0) 1 = SlotValue (VExternal 7)
   \<and> test_getter ''bar'' \<lparr>ma_ObjectProxy = 100, ma_ObjectID = 7, ma_Data = VUndefined,
                             ma_This = VObject PlainObject 0\<rparr> = None
   \<and> fst (ObjectTemplateProxy_GetProperty ''bar'' test_info (test_world 7)) = Inr None
   \<and> fst (ObjectTemplateProxy_GetProperty ''foo'' test_info (test_world 7)) = Inr (Some (VString ''X''))
   \<and> ProxyBase_Type (templates (test_world 7) 200) = FunctionTemplateProxyClass
   \<and> fst (ObjectTemplateProxy_GetProperty ''foo'' test_info
            (snd (ConnectObject 1 7 (Some 200) (test_world 7)))) = Inr None"
  using GetProperty_declines [of "test_world 7" test_info "''bar''"]
  by (simp add: ObjectTemplateProxy_GetProperty_def ConnectObject_def SetManagedObjectID_def
      SetHiddenValue_def SetInternalField_def SetAlignedPointerInInternalField_def
      test_defs step_defs)

section \<open>Invocation of a function template\<close>

text \<open>
  C6.  With a managed call-back registered: a null result makes the invocation return the
  empty handle; a result tagged as an error (a tag below 0) makes it throw an
  \<^verbatim>\<open>Error\<close> whose message is the string form of the result's value; any other result
  makes it return the result's handle.
\<close>

theorem InvocationCallbackProxy_result:
  assumes "args_Data args = VExternal x"
    and "templates w x = FunctionTemplate ft"
    and "ft_ManagedCallback ft = Some callback"
    and "GetHandleProxies E (args_values args) w = (xargs, w1)"
    and "V8EngineProxy_GetHandleProxy E (Some (args_Holder args)) w1 = (this, w2)"
  shows "(callback 0 (args_IsConstructCall args) this xargs (length (args_values args)) = None \<longrightarrow>
            fst (InvocationCallbackProxy E args w) = Inr (Return None))
       \<and> (\<forall>result rh.
             callback 0 (args_IsConstructCall args) this xargs (length (args_values args)) = Some result
           \<and> handles w2 result = Some rh \<longrightarrow>
             (IsError rh \<longrightarrow> (\<forall>v. h_Handle rh = Some v \<longrightarrow>
                 fst (InvocationCallbackProxy E args w) = Inr (ThrowError (Value_ToString E v))))
           \<and> (\<not> IsError rh \<longrightarrow>
                 fst (InvocationCallbackProxy E args w) = Inr (Return (h_Handle rh))))"
  using assms
  by (auto simp: InvocationCallbackProxy_def Let_def emit_def split: option.splits)

theorem InvocationCallbackProxy_result_witness:
  "args_Data (test_args True [VInt32 1]) = VExternal 200
   \<and> GetHandleProxies test_env [VInt32 1] (test_world 7) = ([1], test_world 7)
   \<and> test_callback 0 True 1 [1] 1 = Some 3
   \<and> map_option IsError (handles (test_world 7) 3) = Some True
   \<and> map_option h_Handle (handles (test_world 7) 3) = Some (Some (VString ''boom''))
   \<and> fst (InvocationCallbackProxy test_env (test_args True [VInt32 1]) (test_world 7))
       = Inr (ThrowError ''boom'')
   \<and> test_callback 0 False 1 [1] 1 = Some 2
   \<and> map_option IsError (handles (test_world 7) 2) = Some False
   \<and> fst (InvocationCallbackProxy test_env (test_args False [VInt32 1]) (test_world 7))
       = Inr (Return (Some (VString ''X'')))
   \<and> test_callback 0 False 1 [] 0 = None
   \<and> fst (InvocationCallbackProxy test_env (test_args False []) (test_world 7)) = Inr (Return None)"
  using InvocationCallbackProxy_result
          [of "test_args True [VInt32 1]" 200 "test_world 7"
              "\<lparr>ft_EngineProxy = 500, ft_EngineID = 0, ft_ManagedCallback = Some test_callback\<rparr>"
              test_callback test_env "[1]" "test_world 7" 1 "test_world 7"]
  by (simp add: InvocationCallbackProxy_def IsError_def test_defs step_defs)

section \<open>Object and property operations\<close>

lemma require_object_fails:
  assumes "handles w p = Some h" and "h_Handle h = None \<or> (\<exists>v. h_Handle h = Some v \<and> \<not> IsObject v)"
  shows "\<exists>w'. require_object p w = (Inl (Exception ''The handle does not represent an object.''), w')
     \<and> w'\<lparr>trace := trace w\<rparr> = w"
  using assms
  apply (cases "h_Handle h")
   apply (simp add: require_object_def)
  subgoal for v
    by (cases v) (auto simp: require_object_def emit_def Let_def)
  done

text \<open>
  C7.  When the engine reference of the target handle is empty or is not an object, each
  of the ten object and property operations throws "The handle does not represent an
  object." and leaves the state as it was, the log of engine calls apart; when it is empty
  or not an array, \<^verbatim>\<open>GetArrayLength\<close> throws "The handle does not represent an array
  object." in the same way.
\<close>

theorem object_operations_require_object:
  assumes "handles w p = Some h"
  shows "(h_Handle h = None \<or> (\<exists>v. h_Handle h = Some v \<and> \<not> IsObject v) \<longrightarrow>
            fails_unchanged ''The handle does not represent an object.'' w
              (GetObjectPropertyByName E p name w)
          \<and> fails_unchanged ''The handle does not represent an object.'' w
              (GetObjectPropertyByIndex E p index w)
          \<and> fails_unchanged ''The handle does not represent an object.'' w
              (SetObjectPropertyByName E p name val attribs w)
          \<and> fails_unchanged ''The handle does not represent an object.'' w
              (SetObjectPropertyByIndex E p index val w)
          \<and> fails_unchanged ''The handle does not represent an object.'' w
              (DeleteObjectPropertyByName E p name w)
          \<and> fails_unchanged ''The handle does not represent an object.'' w
              (DeleteObjectPropertyByIndex E p index w)
          \<and> fails_unchanged ''The handle does not represent an object.'' w
              (GetPropertyAttributes E p name w)
          \<and> fails_unchanged ''The handle does not represent an object.'' w
              (GetPropertyNames E p w)
          \<and> fails_unchanged ''The handle does not represent an object.'' w
              (GetOwnPropertyNames E p w)
          \<and> fails_unchanged ''The handle does not represent an object.'' w
              (GetObjectPrototype E p w))
      \<and> (h_Handle h = None \<or> (\<exists>v. h_Handle h = Some v \<and> \<not> IsArray v) \<longrightarrow>
            fails_unchanged ''The handle does not represent an array object.'' w
              (GetArrayLength E p w))"
proof (intro conjI impI)
  assume a: "h_Handle h = None \<or> (\<exists>v. h_Handle h = Some v \<and> \<not> IsArray v)"
  show "fails_unchanged ''The handle does not represent an array object.'' w (GetArrayLength E p w)"
    using assms a
    by (auto simp: GetArrayLength_def fails_unchanged_def emit_def Let_def split: option.splits)
next
  assume a: "h_Handle h = None \<or> (\<exists>v. h_Handle h = Some v \<and> \<not> IsObject v)"
  from require_object_fails [OF assms a]
  obtain w' where r: "require_object p w = (Inl (Exception ''The handle does not represent an object.''), w')"
    and u: "w'\<lparr>trace := trace w\<rparr> = w" by blast
  show "fails_unchanged ''The handle does not represent an object.'' w (GetObjectPropertyByName E p name w)"
    using r u by (simp add: GetObjectPropertyByName_def get_property_def fails_unchanged_def)
  show "fails_unchanged ''The handle does not represent an object.'' w (GetObjectPropertyByIndex E p index w)"
    using r u by (simp add: GetObjectPropertyByIndex_def get_property_def fails_unchanged_def)
  show "fails_unchanged ''The handle does not represent an object.'' w (SetObjectPropertyByName E p name val attribs w)"
    using r u by (simp add: SetObjectPropertyByName_def set_property_def fails_unchanged_def)
  show "fails_unchanged ''The handle does not represent an object.'' w (SetObjectPropertyByIndex E p index val w)"
    using r u by (simp add: SetObjectPropertyByIndex_def set_property_def fails_unchanged_def)
  show "fails_unchanged ''The handle does not represent an object.'' w (DeleteObjectPropertyByName E p name w)"
    using r u by (simp add: DeleteObjectPropertyByName_def delete_property_def fails_unchanged_def)
  show "fails_unchanged ''The handle does not represent an object.'' w (DeleteObjectPropertyByIndex E p index w)"
    using r u by (simp add: DeleteObjectPropertyByIndex_def delete_property_def fails_unchanged_def)
  show "fails_unchanged ''The handle does not represent an object.'' w (GetPropertyAttributes E p name w)"
    using r u by (simp add: GetPropertyAttributes_def fails_unchanged_def)
  show "fails_unchanged ''The handle does not represent an object.'' w (GetPropertyNames E p w)"
    using r u by (simp add: GetPropertyNames_def fails_unchanged_def)
  show "fails_unchanged ''The handle does not represent an object.'' w (GetOwnPropertyNames E p w)"
    using r u by (simp add: GetOwnPropertyNames_def fails_unchanged_def)
  show "fails_unchanged ''The handle does not represent an object.'' w (GetObjectPrototype E p w)"
    using r u by (simp add: GetObjectPrototype_def fails_unchanged_def)
qed

theorem object_operations_require_object_witness:
  "map_option h_Handle (handles (test_world 7) 2) = Some (Some (VString ''X''))
   \<and> \<not> IsObject (VString ''X'')
   \<and> fails_unchanged ''The handle does not represent an object.'' (test_world 7)
       (GetObjectPropertyByName test_env 2 ''length'' (test_world 7))
   \<and> fails_unchanged ''The handle does not represent an object.'' (test_world 7)
       (SetObjectPropertyByIndex test_env 2 0 (Some 1) (test_world 7))
   \<and> fails_unchanged ''The handle does not represent an object.'' (test_world 7)
       (GetObjectPrototype test_env 2 (test_world 7))
   \<and> map_option h_Handle (handles (test_world 7) 1) = Some (Some (VObject PlainObject 0))
   \<and> \<not> IsArray (VObject PlainObject 0)
   \<and> fails_unchanged ''The handle does not represent an array object.'' (test_world 7)
       (GetArrayLength test_env 1 (test_world 7))
   \<and> fst (GetObjectPropertyByName test_env 1 ''length'' (test_world 7)) = Inr 1"
  using object_operations_require_object
          [of "test_world 7" 2 "test_handle JSV_String (Some (VString ''X''))" test_env "''length''"
              0 "Some 1" 0]
        object_operations_require_object
          [of "test_world 7" 1 "test_handle JSV_Object (Some (VObject PlainObject 0))" test_env]
  by (simp add: GetObjectPropertyByName_def get_property_def require_object_def IsArray_def
      test_defs step_defs)


lemmas UpdateValue_defs = UpdateValue_def read_Boolean_def read_Number_def read_String_def
  set_union_def set_V8String_def

section \<open>The value-kind tag\<close>

lemma UpdateValue_keeps_tag:
  assumes "handles w p = Some h"
  shows "\<exists>h'. handles (snd (UpdateValue E p w)) p = Some h'
           \<and> h_Type h' = h_Type h \<and> h_Handle h' = h_Handle h"
  using assms
  by (cases "h_Type h"; cases "h_Handle h")
     (auto simp: UpdateValue_defs Let_def emit_def update_handle_def split: sum.splits prod.splits)

lemma SetHandle_sets_tag:
  assumes "handles w p = Some h"
  shows "\<exists>w1 h1. SetHandle p (Some v) w = (Inr (), w1) \<and> handles w1 p = Some h1
           \<and> h_Handle h1 = Some v \<and> h_Type h1 = SetHandle_Type v"
  using assms
  by (auto simp: SetHandle_def release_Handle_def Let_def emit_def update_handle_def)

lemma SetHandle_Type_kinds:
  "SetHandle_Type (VBoolean b) = JSV_Bool"
  "SetHandle_Type (VInt32 i) = JSV_Int32"
  "SetHandle_Type (VNumber d) = JSV_Number"
  "SetHandle_Type (VString s) = JSV_String"
  "SetHandle_Type (VObject DateObject a) = JSV_Date"
  "SetHandle_Type (VObject ArrayObject a) = JSV_Array"
  "SetHandle_Type (VObject FunctionObject a) = JSV_Function"
  "SetHandle_Type (VObject PlainObject a) = JSV_Object"
  "SetHandle_Type (VObject RegExpObject a) = JSV_RegExp"
  "SetHandle_Type VUndefined = JSV_Undefined"
  by (simp_all add: SetHandle_Type_def IsBooleanObject_def IsNumberObject_def IsStringObject_def
      IsDate_def IsArray_def IsRegExp_def IsFunction_def IsNativeError_def)

lemma SetHandle_Type_other:
  "SetHandle_Type VNull = JSV_Object"
  "SetHandle_Type (VExternal x) = JSV_Undefined"
  "SetHandle_Type (VObject NativeErrorObject a) = JSV_Undefined"
  "SetHandle_Type (VObject BooleanObject a) = JSV_BoolObject"
  "SetHandle_Type (VObject NumberObject a) = JSV_NumberObject"
  "SetHandle_Type (VObject StringObject a) = JSV_StringObject"
  by (simp_all add: SetHandle_Type_def IsBooleanObject_def IsNumberObject_def IsStringObject_def
      IsDate_def IsArray_def IsRegExp_def IsFunction_def IsNativeError_def)

lemma SetHandle_Type_not_error: "0 \<le> JSValueType_int (SetHandle_Type v)"
  by (simp add: SetHandle_Type_def)

text \<open>
  C8, as amended.  The tag is determined by \<^verbatim>\<open>SetHandle\<close>, when a value is assigned: it
  is the tag that the chain of type tests gives to the value.  That chain gives booleans,
  32-bit integers, other numbers, strings, dates, arrays, functions, plain objects,
  regular expressions and \<open>undefined\<close> the tags of these names, boxed booleans, numbers
  and strings their own tags, \<open>null\<close> the object tag, a native \<^verbatim>\<open>Error\<close> object and an
  \<^verbatim>\<open>External\<close> the undefined tag, and no value an error tag.  \<^verbatim>\<open>UpdateValue\<close> does not
  determine the tag again: whatever the handle, and whether the update returns or faults,
  the tag and the engine reference after it are the ones before it.
\<close>

theorem kind_tag_set_and_kept:
  assumes "handles w p = Some h"
  shows "(\<exists>w1 h1. SetHandle p (Some v) w = (Inr (), w1) \<and> handles w1 p = Some h1
            \<and> h_Handle h1 = Some v \<and> h_Type h1 = SetHandle_Type v)
       \<and> (\<exists>h'. handles (snd (UpdateValue E p w)) p = Some h'
            \<and> h_Type h' = h_Type h \<and> h_Handle h' = h_Handle h)
       \<and> (\<forall>b. SetHandle_Type (VBoolean b) = JSV_Bool)
       \<and> (\<forall>i. SetHandle_Type (VInt32 i) = JSV_Int32)
       \<and> (\<forall>d. SetHandle_Type (VNumber d) = JSV_Number)
       \<and> (\<forall>s. SetHandle_Type (VString s) = JSV_String)
       \<and> (\<forall>a. SetHandle_Type (VObject DateObject a) = JSV_Date)
       \<and> (\<forall>a. SetHandle_Type (VObject ArrayObject a) = JSV_Array)
       \<and> (\<forall>a. SetHandle_Type (VObject FunctionObject a) = JSV_Function)
       \<and> (\<forall>a. SetHandle_Type (VObject PlainObject a) = JSV_Object)
       \<and> (\<forall>a. SetHandle_Type (VObject RegExpObject a) = JSV_RegExp)
       \<and> SetHandle_Type VUndefined = JSV_Undefined
       \<and> (\<forall>a. SetHandle_Type (VObject BooleanObject a) = JSV_BoolObject)
       \<and> (\<forall>a. SetHandle_Type (VObject NumberObject a) = JSV_NumberObject)
       \<and> (\<forall>a. SetHandle_Type (VObject StringObject a) = JSV_StringObject)
       \<and> SetHandle_Type VNull = JSV_Object
       \<and> (\<forall>a. SetHandle_Type (VObject NativeErrorObject a) = JSV_Undefined)
       \<and> (\<forall>x. SetHandle_Type (VExternal x) = JSV_Undefined)
       \<and> (\<forall>u. 0 \<le> JSValueType_int (SetHandle_Type u))"
  using SetHandle_sets_tag [OF assms, of v] UpdateValue_keeps_tag [OF assms, of E]
  by (simp add: SetHandle_Type_kinds SetHandle_Type_other SetHandle_Type_not_error)

theorem kind_tag_set_and_kept_witness:
  "map_option h_Type (handles (test_world 7) 2) = Some JSV_String
   \<and> map_option h_Type (handles (snd (SetHandle 2 (Some (VInt32 5)) (test_world 7))) 2) = Some JSV_Int32
   \<and> map_option h_Handle (handles (snd (SetHandle 2 (Some (VInt32 5)) (test_world 7))) 2)
       = Some (Some (VInt32 5))
   \<and> fst (UpdateValue test_env 2 (snd (SetHandle 2 (Some (VInt32 5)) (test_world 7)))) = Inr ()
   \<and> map_option h_Type
        (handles (snd (UpdateValue test_env 2 (snd (SetHandle 2 (Some (VInt32 5)) (test_world 7))))) 2)
       = Some JSV_Int32
   \<and> map_option (v_union \<circ> h_Value)
        (handles (snd (UpdateValue test_env 2 (snd (SetHandle 2 (Some (VInt32 5)) (test_world 7))))) 2)
       = Some (V8Integer 5)
   \<and> map_option h_Type (handles (test_world 7) 3) = Some JSV_ExecutionError
   \<and> map_option h_Type (handles (snd (UpdateValue test_env 3 (test_world 7))) 3)
       = Some JSV_ExecutionError"
  using kind_tag_set_and_kept
          [of "test_world 7" 2 "test_handle JSV_String (Some (VString ''X''))" "VInt32 5" test_env]
  by (simp add: SetHandle_def release_Handle_def UpdateValue_defs SetHandle_Type_kinds
      test_defs step_defs)

text \<open>
  The claim C8 as it was stated fails.  Handle 1 refers to a plain object and is tagged as
  an object; the revival call-back clears its engine reference and leaves the tag;
  \<^verbatim>\<open>UpdateValue\<close> then returns with the tag still saying object, on a handle that has
  no underlying value any more: nothing was revalidated.  And of the kinds the claim
  lists, \<open>error\<close> is never what \<^verbatim>\<open>SetHandle\<close> finds: a native \<^verbatim>\<open>Error\<close> object is tagged
  as undefined.
\<close>

theorem kind_tag_stale_counterexample:
  "map_option h_Type (handles (test_world 7) 1) = Some JSV_Object
   \<and> map_option h_Handle (handles (test_world 7) 1) = Some (Some (VObject PlainObject 0))
   \<and> fst (priv_RevivableCallback 500 1 (test_world 7)) = Inr ()
   \<and> fst (UpdateValue test_env 1 (snd (priv_RevivableCallback 500 1 (test_world 7)))) = Inr ()
   \<and> map_option h_Handle
        (handles (snd (UpdateValue test_env 1 (snd (priv_RevivableCallback 500 1 (test_world 7))))) 1)
       = Some None
   \<and> map_option h_Type
        (handles (snd (UpdateValue test_env 1 (snd (priv_RevivableCallback 500 1 (test_world 7))))) 1)
       = Some JSV_Object
   \<and> map_option (\<lambda>h. tag_classifies h (VObject PlainObject 0))
        (handles (snd (UpdateValue test_env 1 (snd (priv_RevivableCallback 500 1 (test_world 7))))) 1)
       = Some False
   \<and> SetHandle_Type (VObject NativeErrorObject 2) = JSV_Undefined
   \<and> map_option h_Type
        (handles (snd (SetHandle 2 (Some (VObject NativeErrorObject 2)) (test_world 7))) 2)
       = Some JSV_Undefined"
  by (simp add: priv_RevivableCallback_def SetHandle_def release_Handle_def UpdateValue_defs
      tag_classifies_def SetHandle_Type_other test_defs step_defs)

section \<open>After the engine is torn down\<close>

lemma priv_Dispose_engine_freed:
  assumes "handles w p = Some h" and "h_EngineProxy h \<in> freed_engines w"
  shows "priv_Dispose (Suc n) E rd p w
           = (Inl (Fault DanglingPointer), emit (MutexLock (h_EngineProxy h)) w)"
  using assms by (simp add: Let_def emit_def)

lemma priv_Dispose_engine_gone:
  assumes "handles w p = Some h" and "IsDisposed w (h_EngineID h)"
    and "h_EngineProxy h \<notin> freed_engines w"
  shows "priv_Dispose n E rd p w =
           (Inl OutOfFuel,
            w\<lparr>trace := trace w @ concat (replicate n [MutexLock (h_EngineProxy h),
                                                       MutexUnlock (h_EngineProxy h)])\<rparr>)"
  using assms
proof (induction n arbitrary: rd w)
  case 0
  then show ?case by simp
next
  case (Suc n)
  let ?w1 = "emit (MutexUnlock (h_EngineProxy h)) (emit (MutexLock (h_EngineProxy h)) w)"
  have h1: "handles ?w1 p = Some h" using Suc.prems by (simp add: emit_def)
  have d1: "IsDisposed ?w1 (h_EngineID h)" using Suc.prems by (simp add: emit_def IsDisposed_def)
  have f1: "h_EngineProxy h \<notin> freed_engines ?w1" using Suc.prems by (simp add: emit_def)
  from Suc.IH [OF h1 d1 f1, of False] Suc.prems d1 show ?case
    by (simp add: Let_def emit_def)
qed

text \<open>
  The engine-gone branch of \<^verbatim>\<open>_Dispose\<close> does not do what its comment says ("the engine
  is gone, so just destroy the memory").  While the engine proxy is still allocated,
  \<^verbatim>\<open>delete this\<close> runs the destructor, the destructor calls \<^verbatim>\<open>_Dispose(false)\<close>, and that
  call reaches \<^verbatim>\<open>delete this\<close> again: no amount of fuel lets the call return, and the
  handle proxy is never freed.  Once the engine proxy is freed, the call does not get as
  far as the test of the flag.
\<close>

lemma Dispose_engine_gone_never_returns:
  assumes "handles w p = Some h" and "IsDisposed w (h_EngineID h)"
  shows "(h_EngineProxy h \<notin> freed_engines w \<longrightarrow> fst (Dispose n E p w) = Inl OutOfFuel)
       \<and> (h_EngineProxy h \<in> freed_engines w \<longrightarrow> fst (Dispose (Suc n) E p w) = Inl (Fault DanglingPointer))
       \<and> handles (snd (Dispose n E p w)) p = Some h"
proof (cases "h_EngineProxy h \<in> freed_engines w")
  case True
  with assms show ?thesis
    by (cases n) (simp_all add: Dispose_def priv_Dispose_engine_freed emit_def)
next
  case False
  with assms show ?thesis
    by (simp add: Dispose_def priv_Dispose_engine_gone)
qed

lemma mutex_events_only:
  "\<forall>ev \<in> set (concat (replicate n [MutexLock e, MutexUnlock e])). is_Mutex ev"
  by (induction n) (simp_all add: is_Mutex_def)

lemma Dispose_engine_gone_quiet:
  assumes "handles w p = Some h" and "IsDisposed w (h_EngineID h)"
  shows "(\<forall>ev \<in> set (new_events w (snd (priv_Dispose n E rd p w))). is_Mutex ev)
       \<and> fst (priv_Dispose n E rd p w) \<noteq> Inr True"
proof (cases "h_EngineProxy h \<in> freed_engines w")
  case True
  with assms show ?thesis
    by (cases n) (simp_all add: priv_Dispose_engine_freed emit_def new_events_def is_Mutex_def)
next
  case False
  from priv_Dispose_engine_gone [OF assms False, of n E rd]
       mutex_events_only [of n "h_EngineProxy h"]
  show ?thesis by (simp add: new_events_def)
qed

lemma MakeWeak_flag_independent:
  "MakeWeak p (w\<lparr>DisposedEngines := d\<rparr>)
     = (fst (MakeWeak p w), (snd (MakeWeak p w))\<lparr>DisposedEngines := d\<rparr>)"
  by (auto simp: MakeWeak_def Let_def emit_def split: option.splits)

lemma MakeStrong_flag_independent:
  "MakeStrong p (w\<lparr>DisposedEngines := d\<rparr>)
     = (fst (MakeStrong p w), (snd (MakeStrong p w))\<lparr>DisposedEngines := d\<rparr>)"
  by (auto simp: MakeStrong_def Let_def emit_def split: option.splits)

lemma UpdateValue_flag_independent:
  "UpdateValue E p (w\<lparr>DisposedEngines := d\<rparr>)
     = (fst (UpdateValue E p w), (snd (UpdateValue E p w))\<lparr>DisposedEngines := d\<rparr>)"
  apply (cases "handles w p")
   apply (simp add: UpdateValue_def)
  subgoal for h
    by (cases "h_Type h"; cases "h_Handle h")
       (auto simp: UpdateValue_defs Let_def emit_def update_handle_def split: sum.splits prod.splits)
  done

lemma UpdateValue_calls_engine:
  assumes "handles w p = Some h" and "h_Handle h = Some v" and "h_Type h \<noteq> JSV_Undefined"
  shows "\<exists>ev \<in> set (new_events w (snd (UpdateValue E p w))). is_V8Call ev"
  using assms
  by (cases "h_Type h")
     (auto simp: UpdateValue_defs Let_def emit_def update_handle_def new_events_def is_V8Call_def
        split: sum.splits prod.splits)

text \<open>
  C2, as amended.  For a handle whose engine is marked disposed: \<^verbatim>\<open>Dispose\<close> makes no
  call into the engine API and never takes the path that registers or recycles the handle
  (the only one that returns true); this holds of the code as it is written and of the
  code as its comment means it.  \<^verbatim>\<open>MakeWeak\<close>, \<^verbatim>\<open>MakeStrong\<close> and \<^verbatim>\<open>UpdateValue\<close>
  never read the disposed flag.  \<^verbatim>\<open>MakeWeak\<close> and \<^verbatim>\<open>MakeStrong\<close> read the engine
  proxy through the handle: freed memory once the engine is destroyed, and a call into
  the engine while its proxy is still allocated.  \<^verbatim>\<open>UpdateValue\<close> calls into the
  engine through the handle's reference whenever that is not empty and the tag is not the
  undefined one.
\<close>

theorem engine_gone_operations:
  assumes "handles w p = Some h" and "IsDisposed w (h_EngineID h)"
  shows "(\<forall>n. (\<forall>ev \<in> set (new_events w (snd (Dispose n E p w))). \<not> is_V8Call ev)
              \<and> fst (Dispose n E p w) \<noteq> Inr True)
       \<and> (\<forall>d. MakeWeak p (w\<lparr>DisposedEngines := d\<rparr>)
                 = (fst (MakeWeak p w), (snd (MakeWeak p w))\<lparr>DisposedEngines := d\<rparr>))
       \<and> (h_EngineProxy h \<in> freed_engines w \<longrightarrow> fst (MakeWeak p w) = Inl (Fault DanglingPointer))
       \<and> (h_EngineProxy h \<notin> freed_engines w \<longrightarrow>
            V8Call ''Persistent::MakeWeak'' \<in> set (new_events w (snd (MakeWeak p w))))
       \<and> (\<forall>d. MakeStrong p (w\<lparr>DisposedEngines := d\<rparr>)
                 = (fst (MakeStrong p w), (snd (MakeStrong p w))\<lparr>DisposedEngines := d\<rparr>))
       \<and> (h_EngineProxy h \<in> freed_engines w \<longrightarrow> fst (MakeStrong p w) = Inl (Fault DanglingPointer))
       \<and> (h_EngineProxy h \<notin> freed_engines w \<longrightarrow>
            V8Call ''Persistent::ClearWeak'' \<in> set (new_events w (snd (MakeStrong p w))))
       \<and> (\<forall>d. UpdateValue E p (w\<lparr>DisposedEngines := d\<rparr>)
                 = (fst (UpdateValue E p w), (snd (UpdateValue E p w))\<lparr>DisposedEngines := d\<rparr>))
       \<and> (h_Handle h \<noteq> None \<and> h_Type h \<noteq> JSV_Undefined \<longrightarrow>
            (\<exists>ev \<in> set (new_events w (snd (UpdateValue E p w))). is_V8Call ev))"
proof (intro conjI allI impI)
  fix n
  from Dispose_engine_gone_quiet [OF assms, of n E True]
  show "\<forall>ev \<in> set (new_events w (snd (Dispose n E p w))). \<not> is_V8Call ev"
    by (auto simp: Dispose_def is_Mutex_def is_V8Call_def split: event.splits)
  from Dispose_engine_gone_quiet [OF assms, of n E True]
  show "fst (Dispose n E p w) \<noteq> Inr True" by (simp add: Dispose_def)
next
  fix d
  show "MakeWeak p (w\<lparr>DisposedEngines := d\<rparr>)
          = (fst (MakeWeak p w), (snd (MakeWeak p w))\<lparr>DisposedEngines := d\<rparr>)"
    by (rule MakeWeak_flag_independent)
  show "MakeStrong p (w\<lparr>DisposedEngines := d\<rparr>)
          = (fst (MakeStrong p w), (snd (MakeStrong p w))\<lparr>DisposedEngines := d\<rparr>)"
    by (rule MakeStrong_flag_independent)
  show "UpdateValue E p (w\<lparr>DisposedEngines := d\<rparr>)
          = (fst (UpdateValue E p w), (snd (UpdateValue E p w))\<lparr>DisposedEngines := d\<rparr>)"
    by (rule UpdateValue_flag_independent)
next
  assume "h_EngineProxy h \<in> freed_engines w"
  with assms show "fst (MakeWeak p w) = Inl (Fault DanglingPointer)" by (simp add: MakeWeak_def)
next
  assume "h_EngineProxy h \<in> freed_engines w"
  with assms show "fst (MakeStrong p w) = Inl (Fault DanglingPointer)" by (simp add: MakeStrong_def)
next
  assume "h_EngineProxy h \<notin> freed_engines w"
  with assms show "V8Call ''Persistent::MakeWeak'' \<in> set (new_events w (snd (MakeWeak p w)))"
    by (auto simp: MakeWeak_def Let_def emit_def new_events_def split: option.splits)
next
  assume "h_EngineProxy h \<notin> freed_engines w"
  with assms show "V8Call ''Persistent::ClearWeak'' \<in> set (new_events w (snd (MakeStrong p w)))"
    by (auto simp: MakeStrong_def Let_def emit_def new_events_def split: option.splits)
next
  assume "h_Handle h \<noteq> None \<and> h_Type h \<noteq> JSV_Undefined"
  then obtain v where "h_Handle h = Some v" and "h_Type h \<noteq> JSV_Undefined" by auto
  from UpdateValue_calls_engine [OF assms(1) this]
  show "\<exists>ev \<in> set (new_events w (snd (UpdateValue E p w))). is_V8Call ev" .
qed

theorem engine_gone_operations_witness:
  "map_option h_EngineID (handles test_torn_world 2) = Some 0
   \<and> map_option h_EngineProxy (handles test_torn_world 2) = Some 500
   \<and> IsDisposed test_torn_world 0
   \<and> 500 \<in> freed_engines test_torn_world
   \<and> map_option h_Handle (handles test_torn_world 2) = Some (Some (VString ''X''))
   \<and> map_option h_Type (handles test_torn_world 2) = Some JSV_String
   \<and> new_events test_torn_world (snd (Dispose 1 test_env 2 test_torn_world)) = [MutexLock 500]
   \<and> fst (MakeWeak 2 test_torn_world) = Inl (Fault DanglingPointer)
   \<and> fst (MakeStrong 2 test_torn_world) = Inl (Fault DanglingPointer)
   \<and> new_events test_torn_world (snd (UpdateValue test_env 2 test_torn_world))
       = [Store 2 F_Value, V8Call ''String::Write'', Store 2 F_Value]
   \<and> IsDisposed test_tearing_world 0
   \<and> 500 \<notin> freed_engines test_tearing_world
   \<and> new_events test_tearing_world (snd (Dispose 1 test_env 2 test_tearing_world))
       = [MutexLock 500, MutexUnlock 500]
   \<and> new_events test_tearing_world (snd (MakeWeak 2 test_tearing_world))
       = [V8Call ''Persistent::MakeWeak'']
   \<and> new_events test_tearing_world (snd (MakeStrong 2 test_tearing_world))
       = [V8Call ''Persistent::ClearWeak'']"
  using engine_gone_operations
          [of test_torn_world 2 "test_handle JSV_String (Some (VString ''X''))" test_env]
        engine_gone_operations
          [of test_tearing_world 2 "test_handle JSV_String (Some (VString ''X''))" test_env]
  by (simp add: Dispose_def MakeWeak_def MakeStrong_def UpdateValue_defs test_defs step_defs)

text \<open>
  The claim C2 as it was stated fails.  After \<^verbatim>\<open>DestroyV8EngineProxy\<close> of engine 0, on a
  handle of that engine, the exports \<^verbatim>\<open>MakeWeakHandle\<close> and \<^verbatim>\<open>MakeStrongHandle\<close> read
  the freed engine proxy and \<^verbatim>\<open>UpdateHandleValue\<close> calls into the engine; while the
  engine is being torn down, all three call into the engine.
\<close>

theorem engine_gone_counterexample:
  "test_torn_world = DestroyV8EngineProxy 500 (test_world 7)
   \<and> IsDisposed test_torn_world 0
   \<and> map_option h_EngineID (handles test_torn_world 2) = Some 0
   \<and> fst (MakeWeakHandle (Some 2) test_torn_world) = Inl (Fault DanglingPointer)
   \<and> fst (MakeStrongHandle (Some 2) test_torn_world) = Inl (Fault DanglingPointer)
   \<and> V8Call ''String::Write'' \<in> set (trace (snd (UpdateHandleValue test_env (Some 2) test_torn_world)))
   \<and> IsDisposed test_tearing_world 0
   \<and> V8Call ''Persistent::MakeWeak'' \<in> set (trace (snd (MakeWeakHandle (Some 2) test_tearing_world)))
   \<and> V8Call ''Persistent::ClearWeak'' \<in> set (trace (snd (MakeStrongHandle (Some 2) test_tearing_world)))
   \<and> V8Call ''String::Write'' \<in> set (trace (snd (UpdateHandleValue test_env (Some 2) test_tearing_world)))"
  by (simp add: MakeWeakHandle_def MakeStrongHandle_def UpdateHandleValue_def MakeWeak_def
      MakeStrong_def UpdateValue_defs test_defs step_defs)

section \<open>The mutex of the handle system\<close>

lemma priv_Dispose_first_event:
  assumes "handles w p = Some h"
  shows "\<exists>evs. new_events w (snd (priv_Dispose (Suc n) E False p w)) = MutexLock (h_EngineProxy h) # evs"
proof (cases "h_EngineProxy h \<in> freed_engines w")
  case True
  from priv_Dispose_engine_freed [OF assms True, of n E False]
  show ?thesis by (simp add: new_events_def emit_def)
next
  case live: False
  show ?thesis
  proof (cases "IsDisposed w (h_EngineID h)")
    case True
    from priv_Dispose_engine_gone [OF assms True live, of "Suc n" E False]
    show ?thesis by (simp add: new_events_def)
  next
    case False
    with assms live show ?thesis
      by (auto simp: Let_def emit_def update_handle_def new_events_def IsDisposed_def)
  qed
qed

text \<open>
  The lock of \<^verbatim>\<open>_Dispose\<close> is released before the bookkeeping it was meant to guard: on
  a live engine, for a handle being disposed, the writes follow the unlock.
\<close>

lemma priv_Dispose_writes_after_unlock:
  assumes "handles w p = Some h" and "\<not> IsDisposed w (h_EngineID h)" and "h_Disposed h = 1"
    and "h_EngineProxy h \<notin> freed_engines w"
  shows "new_events w (snd (priv_Dispose (Suc n) E False p w))
           = [MutexLock (h_EngineProxy h), MutexUnlock (h_EngineProxy h),
              Store p F_ManagedObjectID, Store p F_Value, Store p F_Disposed]
       \<and> \<not> stores_guarded (h_EngineProxy h) 0 (new_events w (snd (priv_Dispose (Suc n) E False p w)))"
  using assms
  by (auto simp: Let_def emit_def update_handle_def new_events_def IsDisposed_def)

text \<open>
  C9, as amended.  \<^verbatim>\<open>_Dispose\<close> begins by locking the mutex of the handle's engine,
  before any write to the handle proxy.  The caching of the identifier by
  \<^verbatim>\<open>GetManagedObjectID\<close> and by \<^verbatim>\<open>ConnectObject\<close> takes no lock at all.
\<close>

theorem lock_discipline:
  assumes "handles w p = Some h"
  shows "(\<exists>evs. new_events w (snd (priv_Dispose (Suc n) E False p w))
                  = MutexLock (h_EngineProxy h) # evs)
       \<and> (\<forall>ev \<in> set (new_events w (snd (GetManagedObjectID p w))). \<not> is_Mutex ev)
       \<and> (\<forall>ev \<in> set (new_events w (snd (ConnectObject p ident tp w))). \<not> is_Mutex ev)"
proof (intro conjI)
  show "\<exists>evs. new_events w (snd (priv_Dispose (Suc n) E False p w)) = MutexLock (h_EngineProxy h) # evs"
    by (rule priv_Dispose_first_event [OF assms])
  show "\<forall>ev \<in> set (new_events w (snd (GetManagedObjectID p w))). \<not> is_Mutex ev"
    using assms
    by (auto simp: GetManagedObjectID_def Let_def emit_def update_handle_def new_events_def
        is_Mutex_def split: option.splits if_splits slot.splits js_value.splits)
  show "\<forall>ev \<in> set (new_events w (snd (ConnectObject p ident tp w))). \<not> is_Mutex ev"
    using assms
    apply (cases "h_Handle h")
     apply (simp add: ConnectObject_def SetManagedObjectID_def update_handle_def emit_def
        new_events_def is_Mutex_def)
    subgoal for v
      by (cases v)
         (auto simp: ConnectObject_def SetManagedObjectID_def update_handle_def emit_def Let_def
          SetHiddenValue_def SetInternalField_def SetAlignedPointerInInternalField_def
          InternalFieldCount_def new_events_def is_Mutex_def)
    done
qed

theorem lock_discipline_witness:
  "map_option h_EngineProxy (handles (test_world 7) 4) = Some 500
   \<and> hd (new_events (test_world 7) (snd (priv_Dispose 1 test_env False 4 (test_world 7)))) = MutexLock 500
   \<and> map_option h_Disposed (handles (snd (priv_Dispose 1 test_env False 4 (test_world 7))) 4) = Some 2
   \<and> new_events (test_world 7) (snd (GetManagedObjectID 4 (test_world 7)))
       = [Store 4 F_ManagedObjectID, V8Call ''Value::IsObject'', V8Call ''Object::InternalFieldCount'',
          V8Call ''Object::GetHiddenValue'']
   \<and> new_events (test_world 7) (snd (ConnectObject 4 9 None (test_world 7)))
       = [V8Call ''Value::IsObject'', V8Call ''Object::InternalFieldCount'',
          V8Call ''Object::SetHiddenValue'', Store 4 F_ManagedObjectID]"
  using lock_discipline
          [of "test_world 7" 4 "(test_handle JSV_Object (Some (VObject PlainObject 1)))\<lparr>h_Disposed := 1\<rparr>"
              0 test_env 9 None]
  by (simp add: GetManagedObjectID_def ConnectObject_def SetManagedObjectID_def SetHiddenValue_def
      test_defs step_defs)

text \<open>
  The claim C9 as it was stated fails: \<^verbatim>\<open>GetManagedObjectID\<close> writes the cached
  identifier of a handle of engine 500 twice, and the mutex of that engine is not held at
  either write.
\<close>

theorem lock_discipline_counterexample:
  "map_option h_EngineProxy (handles (test_world 7) 1) = Some 500
   \<and> new_events (test_world 7) (snd (GetManagedObjectID 1 (test_world 7)))
       = [Store 1 F_ManagedObjectID, V8Call ''Value::IsObject'', V8Call ''Object::InternalFieldCount'',
          V8Call ''Object::GetInternalField'', V8Call ''Value::IsExternal'', V8Call ''External::Value'',
          Store 1 F_ManagedObjectID]
   \<and> \<not> stores_guarded 500 0 (new_events (test_world 7) (snd (GetManagedObjectID 1 (test_world 7))))"
  by (simp add: GetManagedObjectID_def test_defs step_defs)

end
